theory Spec2Isabelle
  imports Main "HOL-Library.Word"
begin

section \<open>Metadata objects, vectors and the name map\<close>

text \<open>
  Every metadata object starts with the header \<^verbatim>\<open>NC_OBJ\<close>; the attribute and variable
  structs extend it, which is what record extension gives.  The fields \<^verbatim>\<open>name\<close> and
  \<^verbatim>\<open>id\<close> are written \<open>hdr_name\<close> and \<open>hdr_id\<close> (the attribute code reaches them as
  \<^verbatim>\<open>att->hdr.name\<close> and \<^verbatim>\<open>att->hdr.id\<close>).  The cached \<^verbatim>\<open>hashkey\<close> and the sort tag are
  never read by the functions embedded here and are left out.
\<close>

record NC_OBJ =
  hdr_name :: string
  hdr_id :: nat

text \<open>
  Modelled from the spec: \<^verbatim>\<open>NClist\<close> (nclist.c is not among the sources), the
  DynamicVector of section 4.1: append at the end, \<open>get(i)\<close> returns the reference or
  absent, \<open>removeAt(i)\<close> compacts.  A vector is a HOL list; a \<^verbatim>\<open>NULL\<close> result is \<open>None\<close>.
\<close>

definition nclistlength :: "'a list \<Rightarrow> nat" where
  "nclistlength l = length l"

definition nclistpush :: "'a list \<Rightarrow> 'a \<Rightarrow> 'a list" where
  "nclistpush l x = l @ [x]"

definition nclistget :: "'a list \<Rightarrow> nat \<Rightarrow> 'a option" where
  "nclistget l i = (if i < length l then Some (l ! i) else None)"

definition nclistremove :: "'a list \<Rightarrow> nat \<Rightarrow> 'a option \<times> 'a list" where
  "nclistremove l i =
     (if i < length l then (Some (l ! i), take i l @ drop (Suc i) l) else (None, l))"

text \<open>
  Modelled from the spec: \<^verbatim>\<open>NC_hashmap\<close> (nchashmap.c is not among the sources), the
  name-to-slot map of section 4.2, reduced to its contract: an insert binds the key to
  the datum (overwriting the datum of a matching key), a lookup returns the datum bound
  to the key, a deactivation drops the entry that carries a given datum.  The active
  entries are kept as an association list in insertion order.
\<close>

type_synonym NC_hashmap = "(string \<times> nat) list"

definition NC_hashmapnew :: "nat \<Rightarrow> NC_hashmap" where
  "NC_hashmapnew startsize = []"

fun NC_hashmapadd :: "NC_hashmap \<Rightarrow> nat \<Rightarrow> string \<Rightarrow> NC_hashmap" where
  "NC_hashmapadd [] data key = [(key, data)]"
| "NC_hashmapadd ((k, d) # es) data key =
     (if k = key then (k, data) # es else (k, d) # NC_hashmapadd es data key)"

definition NC_hashmapget :: "NC_hashmap \<Rightarrow> string \<Rightarrow> nat option" where
  "NC_hashmapget m key = map_of m key"

fun NC_hashmapdeactivate :: "NC_hashmap \<Rightarrow> nat \<Rightarrow> bool \<times> NC_hashmap" where
  "NC_hashmapdeactivate [] data = (False, [])"
| "NC_hashmapdeactivate ((k, d) # es) data =
     (if d = data then (True, es)
      else (fst (NC_hashmapdeactivate es data), (k, d) # snd (NC_hashmapdeactivate es data)))"

section \<open>The index: ncindex.c\<close>

text \<open>
  An \<^verbatim>\<open>NCindex\<close> is the vector together with the name map.  The fields \<^verbatim>\<open>list\<close> and
  \<^verbatim>\<open>map\<close> are written \<open>nclist\<close> and \<open>ncmap\<close>.  Whether the map is used at all is decided
  by the macro \<^verbatim>\<open>NCIUSEHASH\<close>, which is set (or not) in a header outside the sources: every
  function below takes it as its first argument.

  A pointer to an object held by an index is modelled by the position of that object in
  the vector, so \<open>ncindexlookup\<close> returns a position and \<open>ncindexith\<close> reads the object
  there.  Index pointers themselves are never \<^verbatim>\<open>NULL\<close> in the model and growing a vector
  cannot fail, so the \<^verbatim>\<open>return 0\<close> exits of \<open>ncindexadd\<close> and \<open>ncindexrehash\<close> do not arise.
\<close>

record 'a NCindex =
  nclist :: "'a list"
  ncmap :: NC_hashmap

definition DFALTTABLESIZE :: nat where
  "DFALTTABLESIZE = 7"

definition ncindexnew :: "bool \<Rightarrow> nat \<Rightarrow> 'a NCindex" where
  "ncindexnew NCIUSEHASH size0 =
     (let size = (if size0 = 0 then DFALTTABLESIZE else size0)
      in \<lparr>nclist = [], ncmap = (if NCIUSEHASH then NC_hashmapnew size else [])\<rparr>)"

fun ncindexsearch :: "('a NC_OBJ_scheme) list \<Rightarrow> string \<Rightarrow> nat option" where
  "ncindexsearch [] nm = None"
| "ncindexsearch (ob # l) nm =
     (if hdr_name ob = nm then Some 0 else map_option Suc (ncindexsearch l nm))"

definition ncindexlookup :: "bool \<Rightarrow> ('a NC_OBJ_scheme) NCindex \<Rightarrow> string \<Rightarrow> nat option" where
  "ncindexlookup NCIUSEHASH ncindex nm =
     (if NCIUSEHASH then
        (case NC_hashmapget (ncmap ncindex) nm of
           None \<Rightarrow> None
         | Some index \<Rightarrow>
             (case nclistget (nclist ncindex) index of None \<Rightarrow> None | Some ob \<Rightarrow> Some index))
      else ncindexsearch (nclist ncindex) nm)"

definition ncindexith :: "'a NCindex \<Rightarrow> nat \<Rightarrow> 'a option" where
  "ncindexith index i = nclistget (nclist index) i"

definition ncindexsize :: "'a NCindex \<Rightarrow> nat" where
  "ncindexsize index = nclistlength (nclist index)"

definition ncindexadd ::
  "bool \<Rightarrow> ('a NC_OBJ_scheme) NCindex \<Rightarrow> 'a NC_OBJ_scheme \<Rightarrow> ('a NC_OBJ_scheme) NCindex" where
  "ncindexadd NCIUSEHASH ncindex obj =
     (let pushed = ncindex\<lparr>nclist := nclistpush (nclist ncindex) obj\<rparr>
      in if NCIUSEHASH then
           (let index = nclistlength (nclist pushed)
            in pushed\<lparr>ncmap := NC_hashmapadd (ncmap pushed) index (hdr_name obj)\<rparr>)
         else pushed)"

definition ncindexidel :: "bool \<Rightarrow> 'a NCindex \<Rightarrow> nat \<Rightarrow> bool \<times> 'a NCindex" where
  "ncindexidel NCIUSEHASH index i =
     (case nclistremove (nclist index) i of
        (None, l) \<Rightarrow> (False, index)
      | (Some obj, l) \<Rightarrow>
          (if NCIUSEHASH then
             (case NC_hashmapdeactivate (ncmap index) i of
                (False, m) \<Rightarrow> (False, index\<lparr>nclist := l\<rparr>)
              | (True, m) \<Rightarrow> (True, index\<lparr>nclist := l, ncmap := m\<rparr>))
           else (True, index\<lparr>nclist := l\<rparr>)))"

text \<open>
  Modelled from the spec: \<^verbatim>\<open>ncindexclear\<close> and \<^verbatim>\<open>ncindexinit\<close>, which \<open>ncindexrehash\<close>
  calls, are not among the sources.  Section 4.3: a rebuild discards the hash table and
  reconstructs it from the vector; the vector itself has been emptied by
  \<^verbatim>\<open>nclistextract\<close>, so the index starts again from an empty vector and an empty map and
  every object is added back in order.
\<close>

definition ncindexrehash ::
  "bool \<Rightarrow> ('a NC_OBJ_scheme) NCindex \<Rightarrow> ('a NC_OBJ_scheme) NCindex" where
  "ncindexrehash NCIUSEHASH index =
     (if NCIUSEHASH then
        (let size = nclistlength (nclist index);
             contents = nclist index;
             cleared = index\<lparr>nclist := [], ncmap := NC_hashmapnew size\<rparr>
         in foldl (ncindexadd NCIUSEHASH) cleared contents)
      else index)"

text \<open>
  \<open>ncindexverify\<close>, without its printing.  The first pass (lines 470 to 488) visits every
  active entry of the map and counts an error when the datum is not a position of the
  vector or when the object there has another name than the key.  When the vector or the
  map is empty the function is done.  Otherwise the passes of lines 492 to 526 scan the
  table slots below \<^verbatim>\<open>map->active\<close> and mark the entries they find there; which entries
  lie in those slots is a matter of the layout of the table, which the association list
  does not carry, so the number of errors these passes count is the argument
  \<open>later_errors\<close>.  The result is \<^verbatim>\<open>nerrs > 0 ? 0 : 1\<close>.
\<close>

definition verify_entry :: "('a NC_OBJ_scheme) list \<Rightarrow> string \<times> nat \<Rightarrow> nat" where
  "verify_entry l e =
     (case nclistget l (snd e) of
        None \<Rightarrow> 1
      | Some object \<Rightarrow> (if hdr_name object \<noteq> fst e then 1 else 0))"

definition ncindexverify :: "bool \<Rightarrow> ('a NC_OBJ_scheme) NCindex \<Rightarrow> nat \<Rightarrow> bool" where
  "ncindexverify NCIUSEHASH lm later_errors =
     (if NCIUSEHASH then
        (let l = nclist lm;
             nerrs1 = sum_list (map (verify_entry l) (ncmap lm));
             nerrs = (if nclistlength l = 0 \<or> length (ncmap lm) = 0 then nerrs1
                      else nerrs1 + later_errors)
         in \<not> (nerrs > 0))
      else True)"

section \<open>Constants, types and file state of the attribute code\<close>

text \<open>
  The return codes of the library.  The source tests them only for being zero or not and
  returns them unchanged, so they are a datatype; \<open>NC_EOTHER\<close> stands for any code that
  a collaborator may return and the attribute code never names.
\<close>

datatype ncerr =
    NC_NOERR | NC_EBADID | NC_ENOTVAR | NC_EBADNAME | NC_EATTMETA | NC_ENOTATT | NC_ECHAR
  | NC_ERANGE | NC_ENOMEM | NC_EINVAL | NC_EMAXNAME | NC_EPERM | NC_ENAMEINUSE
  | NC_ENOTINDEFINE | NC_EINDEFINE | NC_EHDFERR | NC_EINTERNAL | NC_EBADTYPE
  | NC_ESTRICTNC3 | NC_ELATEFILL | NC_EOTHER int

text \<open>
  An abort of the process (a failed \<^verbatim>\<open>assert\<close>, a read through a null pointer, a payload
  whose shape is not the one its type class is cast to) is the outcome \<open>Crash\<close>; every
  other run returns.
\<close>

datatype 'a outcome = Returns 'a | Crash

text \<open>
  Modelled from the spec: the constants below are macros of headers that are not among
  the sources (netcdf.h, nc4internal.h): the type identifiers and classes, the global
  pseudo variable id, the limits on a name and on an element count, and the names of the
  reserved attributes (the provenance string, the is-netcdf4 flag, the superblock-version
  flag) and of the fill-value attribute.  The code only compares them, except for
  \<^verbatim>\<open>file_type > NC_DOUBLE\<close>, which needs the order of the type identifiers.
\<close>

type_synonym nc_type = int

definition NC_NAT :: nc_type where "NC_NAT = 0"
definition NC_BYTE :: nc_type where "NC_BYTE = 1"
definition NC_CHAR :: nc_type where "NC_CHAR = 2"
definition NC_SHORT :: nc_type where "NC_SHORT = 3"
definition NC_INT :: nc_type where "NC_INT = 4"
definition NC_FLOAT :: nc_type where "NC_FLOAT = 5"
definition NC_DOUBLE :: nc_type where "NC_DOUBLE = 6"
definition NC_UBYTE :: nc_type where "NC_UBYTE = 7"
definition NC_USHORT :: nc_type where "NC_USHORT = 8"
definition NC_UINT :: nc_type where "NC_UINT = 9"
definition NC_INT64 :: nc_type where "NC_INT64 = 10"
definition NC_UINT64 :: nc_type where "NC_UINT64 = 11"
definition NC_STRING :: nc_type where "NC_STRING = 12"
definition NC_VLEN :: nc_type where "NC_VLEN = 13"
definition NC_OPAQUE :: nc_type where "NC_OPAQUE = 14"
definition NC_ENUM :: nc_type where "NC_ENUM = 15"
definition NC_COMPOUND :: nc_type where "NC_COMPOUND = 16"

definition NC_GLOBAL :: int where "NC_GLOBAL = - 1"
definition NC_MAX_NAME :: nat where "NC_MAX_NAME = 256"
definition X_INT_MAX :: nat where "X_INT_MAX = 2147483647"

definition NCPROPS :: string where "NCPROPS = ''_NCProperties''"
definition ISNETCDF4ATT :: string where "ISNETCDF4ATT = ''_IsNetcdf4''"
definition SUPERBLOCKATT :: string where "SUPERBLOCKATT = ''_SuperblockVersion''"
definition FillValue_name :: string where "FillValue_name = ''_FillValue''"

text \<open>
  Modelled from the spec: \<^verbatim>\<open>NC_findreserved\<close> and its table are not among the sources.
  Section 4.5 names the reserved attributes that are never materialised; they are the
  entries that carry \<^verbatim>\<open>NAMEONLYFLAG\<close>.  The result is the entry's \<^verbatim>\<open>NAMEONLYFLAG\<close> bit,
  \<open>None\<close> for a name that is not reserved.
\<close>

definition NC_findreserved :: "string \<Rightarrow> bool option" where
  "NC_findreserved nm =
     (if nm = NCPROPS \<or> nm = ISNETCDF4ATT \<or> nm = SUPERBLOCKATT then Some True else None)"

text \<open>
  Payloads.  A raw buffer is a list of bytes.  A variable-length element \<^verbatim>\<open>hvl_t\<close> is a
  count and a buffer; a string array may hold null entries.  What a caller passes to or
  receives from the library through \<^verbatim>\<open>void *\<close> is one of these shapes, or a single
  integer of a named type (the values synthesised for the reserved flags).
\<close>

type_synonym bytes = "8 word list"

record hvl_t =
  vl_len :: nat
  vl_p :: bytes

datatype cdata =
    Bytes bytes
  | Strings "string option list"
  | Vlens "hvl_t list"
  | Scalar nc_type int

record NC_ATT_INFO_T = NC_OBJ +
  len :: nat
  dirty :: bool
  created :: bool
  nc_typeid :: nc_type
  data :: "bytes option"
  stdata :: "string option list option"
  vldata :: "hvl_t list option"

record NC_VAR_INFO_T = NC_OBJ +
  var_att :: "NC_ATT_INFO_T NCindex"
  type_info_id :: nc_type
  type_info_class :: nc_type
  written_to :: bool
  fill_value :: "cdata option"
  var_created :: bool
  fill_val_changed :: bool
  attr_dirty :: bool

text \<open>
  The group keeps its own attributes and its variables; \<open>has_parent\<close> is
  \<^verbatim>\<open>grp->parent != NULL\<close>.  Of the file, the code reads the read-only flag, the bit
  \<^verbatim>\<open>NC_INDEF\<close> of \<^verbatim>\<open>flags\<close>, the bit \<^verbatim>\<open>NC_CLASSIC_MODEL\<close> of \<^verbatim>\<open>cmode\<close>, and the provenance
  version and superblock version of \<^verbatim>\<open>fileinfo\<close>.
\<close>

record NC_GRP_INFO_T =
  grp_att :: "NC_ATT_INFO_T NCindex"
  vars :: "NC_VAR_INFO_T NCindex"
  has_parent :: bool
  hdf_grpid :: int

record NC_HDF5_FILE_INFO_T =
  no_write :: bool
  flags_INDEF :: bool
  cmode_CLASSIC_MODEL :: bool
  propattr_version :: int
  superblockversion :: int

text \<open>
  The state is what \<^verbatim>\<open>nc4_find_nc_grp_h5\<close> resolves an ncid to: the file handle with its
  external id, the group and the file information.
\<close>

record nc_state =
  ext_ncid :: int
  grp :: NC_GRP_INFO_T
  h5 :: NC_HDF5_FILE_INFO_T

text \<open>
  The collaborators that the attribute code calls and that are not among the sources are
  the fields of an environment: the build switch of the index, the resolution of an ncid
  (its status only), name normalisation and checking, the type oracle (memory size,
  classic size, class, base type of a variable-length type), the conversion bridge
  (source pointer, possibly null, source type, destination type, count, strict flag; it
  returns a status, the converted buffer and the range flag), the definition-mode switch, the provenance
  builder, the is-netcdf4 probe, the backend removal, and the allocator (whether a
  request of so many bytes succeeds).
\<close>

record env =
  NCIUSEHASH_set :: bool
  nc4_find_nc_grp_h5 :: "int \<Rightarrow> ncerr"
  nc4_normalize_name :: "string \<Rightarrow> ncerr \<times> string"
  nc4_check_name :: "string \<Rightarrow> ncerr \<times> string"
  nc4_get_typelen_mem :: "nc_type \<Rightarrow> ncerr \<times> nat"
  nc4typelen :: "nc_type \<Rightarrow> int"
  nc4_get_typeclass :: "nc_type \<Rightarrow> ncerr \<times> nc_type"
  nc4_find_type :: "nc_type \<Rightarrow> ncerr \<times> nc_type"
  nc4_convert_type ::
    "bytes option \<Rightarrow> nc_type \<Rightarrow> nc_type \<Rightarrow> nat \<Rightarrow> bool \<Rightarrow> ncerr \<times> bytes \<times> bool"
  NC4_redef :: "NC_HDF5_FILE_INFO_T \<Rightarrow> ncerr \<times> NC_HDF5_FILE_INFO_T"
  NC4_buildpropinfo :: "int \<Rightarrow> ncerr \<times> string"
  NC4_isnetcdf4 :: "NC_HDF5_FILE_INFO_T \<Rightarrow> int"
  H5Adelete :: "int \<Rightarrow> string \<Rightarrow> int"
  nc4_open_var_grp2 :: "int \<Rightarrow> ncerr \<times> int"
  nc_free_vlen :: "hvl_t \<Rightarrow> ncerr"
  malloc :: "nat \<Rightarrow> bool"

text \<open>
  An attribute list is reached through the group (\<^verbatim>\<open>grp->att\<close>) or through a variable
  (\<^verbatim>\<open>var->att\<close>); the pointer returned by \<open>getattlist\<close> is modelled by where the list lives.
  A variable id is converted to \<^verbatim>\<open>size_t\<close> before indexing, so a negative id is out of
  range.
\<close>

datatype attloc = GlobalAtts | VarAtts nat

definition ncindexith_int :: "'a NCindex \<Rightarrow> int \<Rightarrow> 'a option" where
  "ncindexith_int index i = (if i < 0 then None else ncindexith index (nat i))"

definition getattlist :: "NC_GRP_INFO_T \<Rightarrow> int \<Rightarrow> attloc option outcome" where
  "getattlist g varid =
     (if varid = NC_GLOBAL then Returns (Some GlobalAtts)
      else
        (case ncindexith_int (vars g) varid of
           None \<Rightarrow> Returns None
         | Some var \<Rightarrow>
             (if int (hdr_id var) = varid then Returns (Some (VarAtts (nat varid))) else Crash)))"

definition attlist_of :: "NC_GRP_INFO_T \<Rightarrow> attloc \<Rightarrow> NC_ATT_INFO_T NCindex" where
  "attlist_of g loc =
     (case loc of
        GlobalAtts \<Rightarrow> grp_att g
      | VarAtts v \<Rightarrow> var_att (nclist (vars g) ! v))"

definition attlist_update ::
  "NC_GRP_INFO_T \<Rightarrow> attloc \<Rightarrow> NC_ATT_INFO_T NCindex \<Rightarrow> NC_GRP_INFO_T" where
  "attlist_update g loc al =
     (case loc of
        GlobalAtts \<Rightarrow> g\<lparr>grp_att := al\<rparr>
      | VarAtts v \<Rightarrow>
          g\<lparr>vars := (vars g)\<lparr>nclist := (nclist (vars g))[v := (nclist (vars g) ! v)\<lparr>var_att := al\<rparr>]\<rparr>\<rparr>)"

section \<open>Reading attributes: nc4attr.c\<close>

text \<open>
  What a get writes through its result pointers.  A field is \<open>None\<close> while the caller's
  memory is untouched (the pointer was null, or the call left before writing).
\<close>

record get_out =
  out_xtype :: "nc_type option"
  out_len :: "nat option"
  out_attnum :: "nat option"
  out_data :: "cdata option"

definition no_out :: get_out where
  "no_out = \<lparr>out_xtype = None, out_len = None, out_attnum = None, out_data = None\<rparr>"

definition text_bytes :: "string \<Rightarrow> bytes" where
  "text_bytes str = map (\<lambda>c. word_of_nat (of_char c)) str @ [0]"

text \<open>
  \<open>nc4_get_att_special\<close>.  The pointer arguments \<^verbatim>\<open>filetypep\<close>, \<^verbatim>\<open>lenp\<close>, \<^verbatim>\<open>attnump\<close> and
  \<^verbatim>\<open>data\<close> are given by whether they are non-null.  The value \<^verbatim>\<open>iv\<close> is an
  \<^verbatim>\<open>unsigned long long\<close>; each cast of the \<^verbatim>\<open>switch\<close> truncates it to the width of the
  requested type.
\<close>

definition special_value :: "nc_type \<Rightarrow> 64 word \<Rightarrow> cdata option" where
  "special_value mem_type iv =
     (if mem_type = NC_BYTE then Some (Scalar NC_BYTE (sint (ucast iv :: 8 word)))
      else if mem_type = NC_SHORT then Some (Scalar NC_SHORT (sint (ucast iv :: 16 word)))
      else if mem_type = NC_INT then Some (Scalar NC_INT (sint (ucast iv :: 32 word)))
      else if mem_type = NC_UBYTE then Some (Scalar NC_UBYTE (uint (ucast iv :: 8 word)))
      else if mem_type = NC_USHORT then Some (Scalar NC_USHORT (uint (ucast iv :: 16 word)))
      else if mem_type = NC_UINT then Some (Scalar NC_UINT (uint (ucast iv :: 32 word)))
      else if mem_type = NC_INT64 then Some (Scalar NC_INT64 (sint iv))
      else if mem_type = NC_UINT64 then Some (Scalar NC_UINT64 (uint iv))
      else None)"

definition nc4_get_att_special ::
  "env \<Rightarrow> NC_HDF5_FILE_INFO_T \<Rightarrow> string \<Rightarrow> bool \<Rightarrow> nc_type \<Rightarrow> bool \<Rightarrow> bool \<Rightarrow> bool
     \<Rightarrow> ncerr \<times> get_out" where
  "nc4_get_att_special e h nm filetypep mem_type0 lenp attnump datap =
     (if attnump then (NC_EATTMETA, no_out)
      else if nm = NCPROPS then
        (if propattr_version h = 0 then (NC_ENOTATT, no_out)
         else
           (let mem_type = (if mem_type0 = NC_NAT then NC_CHAR else mem_type0)
            in if mem_type \<noteq> NC_CHAR then (NC_ECHAR, no_out)
               else
                 (let out1 = no_out\<lparr>out_xtype := (if filetypep then Some NC_CHAR else None)\<rparr>
                  in case NC4_buildpropinfo e (propattr_version h) of
                       (stat, propdata) \<Rightarrow>
                         (if stat \<noteq> NC_NOERR then (stat, out1)
                          else (NC_NOERR,
                                out1\<lparr>out_len := (if lenp then Some (length propdata) else None),
                                     out_data := (if datap then Some (Bytes (text_bytes propdata))
                                                  else None)\<rparr>)))))
      else if nm = ISNETCDF4ATT \<or> nm = SUPERBLOCKATT then
        (let out1 = no_out\<lparr>out_xtype := (if filetypep then Some NC_INT else None),
                          out_len := (if lenp then Some 1 else None)\<rparr>;
             iv = (if nm = SUPERBLOCKATT then word_of_int (superblockversion h)
                   else word_of_int (NC4_isnetcdf4 e h)) :: 64 word;
             mem_type = (if mem_type0 = NC_NAT then NC_INT else mem_type0)
         in if datap then
              (case special_value mem_type iv of
                 None \<Rightarrow> (NC_ERANGE, out1)
               | Some v \<Rightarrow> (NC_NOERR, out1\<lparr>out_data := Some v\<rparr>))
            else (NC_NOERR, out1))
      else (NC_NOERR, no_out))"

text \<open>
  Modelled from the spec: \<^verbatim>\<open>nc4_find_grp_att\<close> is not among the sources.  Step 1 of
  \<open>get\<close> in section 4.4: resolve the name through the attribute list of the container,
  NotFound if absent.  The caller always passes a name, so the attribute number is not
  consulted.
\<close>

definition nc4_find_grp_att ::
  "env \<Rightarrow> NC_GRP_INFO_T \<Rightarrow> int \<Rightarrow> string \<Rightarrow> int \<Rightarrow> ncerr + NC_ATT_INFO_T" where
  "nc4_find_grp_att e g varid nm attnum =
     (case (if varid = NC_GLOBAL then Some (grp_att g)
            else map_option var_att (ncindexith_int (vars g) varid)) of
        None \<Rightarrow> Inl NC_ENOTVAR
      | Some attlist \<Rightarrow>
          (case ncindexlookup (NCIUSEHASH_set e) attlist nm of
             None \<Rightarrow> Inl NC_ENOTATT
           | Some p \<Rightarrow>
               (case ncindexith attlist p of None \<Rightarrow> Inl NC_ENOTATT | Some a \<Rightarrow> Inr a)))"

text \<open>
  The two deep-copy loops of a get.  Each element is allocated before it is copied; the
  first failed allocation ends the loop with \<^verbatim>\<open>NC_ENOMEM\<close>, leaving the elements
  copied so far.
\<close>

fun copy_vlens :: "(nat \<Rightarrow> bool) \<Rightarrow> nat \<Rightarrow> hvl_t list \<Rightarrow> bool \<times> hvl_t list" where
  "copy_vlens alloc base_typelen [] = (True, [])"
| "copy_vlens alloc base_typelen (v # vs) =
     (if \<not> alloc (vl_len v * base_typelen) then (False, [])
      else
        (case copy_vlens alloc base_typelen vs of
           (ok, r) \<Rightarrow>
             (ok, \<lparr>vl_len = vl_len v, vl_p = take (vl_len v * base_typelen) (vl_p v)\<rparr> # r)))"

fun copy_strings :: "(nat \<Rightarrow> bool) \<Rightarrow> string option list \<Rightarrow> bool \<times> string option list" where
  "copy_strings alloc [] = (True, [])"
| "copy_strings alloc (None # ss) =
     (case copy_strings alloc ss of (ok, r) \<Rightarrow> (ok, None # r))"
| "copy_strings alloc (Some str # ss) =
     (if \<not> alloc (length str + 1) then (False, [])
      else (case copy_strings alloc ss of (ok, r) \<Rightarrow> (ok, Some str # r)))"

text \<open>The label \<^verbatim>\<open>exit\<close> of \<open>nc4_get_att\<close>: a pending range error replaces the status.\<close>

definition get_exit :: "bool \<Rightarrow> ncerr \<Rightarrow> get_out \<Rightarrow> (ncerr \<times> get_out) outcome" where
  "get_exit range_error retval out = Returns ((if range_error then NC_ERANGE else retval), out)"

text \<open>Lines 230 to 272: the copy to the caller, from the buffer \<open>bufr\<close>.\<close>

definition get_att_copy ::
  "env \<Rightarrow> NC_ATT_INFO_T \<Rightarrow> nat \<Rightarrow> bytes option \<Rightarrow> bool \<Rightarrow> get_out \<Rightarrow> bool
     \<Rightarrow> (ncerr \<times> get_out) outcome" where
  "get_att_copy e att type_size bufr range_error out1 datap =
     (if datap then
        (case vldata att of
           Some vl \<Rightarrow>
             (case nc4_find_type e (nc_typeid att) of
                (r1, base_nc_typeid) \<Rightarrow>
                  (if r1 \<noteq> NC_NOERR then get_exit range_error r1 out1
                   else
                     (case nc4_get_typelen_mem e base_nc_typeid of
                        (r2, base_typelen) \<Rightarrow>
                          (if r2 \<noteq> NC_NOERR then get_exit range_error r2 out1
                           else
                             (case copy_vlens (malloc e) base_typelen (take (len att) vl) of
                                (ok, vs) \<Rightarrow>
                                  get_exit range_error (if ok then NC_NOERR else NC_ENOMEM)
                                    (out1\<lparr>out_data := Some (Vlens vs)\<rparr>))))))
         | None \<Rightarrow>
             (case stdata att of
                Some st \<Rightarrow>
                  (case copy_strings (malloc e) (take (len att) st) of
                     (ok, ss) \<Rightarrow>
                       get_exit range_error (if ok then NC_NOERR else NC_ENOMEM)
                         (out1\<lparr>out_data := Some (Strings ss)\<rparr>))
              | None \<Rightarrow>
                  (case bufr of
                     None \<Rightarrow> Crash
                   | Some b \<Rightarrow>
                       get_exit range_error NC_NOERR
                         (out1\<lparr>out_data := Some (Bytes (take (len att * type_size) b))\<rparr>))))
      else get_exit range_error NC_NOERR out1)"

text \<open>Lines 166 to 279: \<open>nc4_get_att\<close> once the attribute is found.\<close>

definition get_att_found ::
  "env \<Rightarrow> nc_state \<Rightarrow> NC_ATT_INFO_T \<Rightarrow> bool \<Rightarrow> nc_type \<Rightarrow> bool \<Rightarrow> bool \<Rightarrow> bool
     \<Rightarrow> (ncerr \<times> get_out) outcome" where
  "get_att_found e s att xtype mem_type0 lenp attnum datap =
     (let mem_type = (if mem_type0 = NC_NAT then nc_typeid att else mem_type0);
          strict = cmode_CLASSIC_MODEL (h5 s)
      in if datap \<and> len att \<noteq> 0 \<and>
            ((nc_typeid att = NC_CHAR \<and> mem_type \<noteq> NC_CHAR) \<or>
             (nc_typeid att \<noteq> NC_CHAR \<and> mem_type = NC_CHAR))
         then get_exit False NC_ECHAR no_out
         else
           (let out1 = \<lparr>out_xtype = (if xtype then Some (nc_typeid att) else None),
                        out_len = (if lenp then Some (len att) else None),
                        out_attnum = (if attnum then Some (hdr_id att) else None),
                        out_data = None\<rparr>
            in if len att = 0 then get_exit False NC_NOERR out1
               else
                 (case nc4_get_typelen_mem e mem_type of
                    (r, type_size) \<Rightarrow>
                      (if r \<noteq> NC_NOERR then get_exit False r out1
                       else if datap \<and> len att \<noteq> 0 \<and> mem_type \<noteq> nc_typeid att \<and>
                               mem_type \<noteq> NC_NAT \<and>
                               \<not> (mem_type = NC_CHAR \<and>
                                  (nc_typeid att = NC_UBYTE \<or> nc_typeid att = NC_BYTE))
                       then
                         (if \<not> malloc e (len att * type_size)
                          then get_exit False NC_ENOMEM out1
                          else
                            (case nc4_convert_type e (data att) (nc_typeid att) mem_type
                                    (len att) strict of
                               (rc, bufr, range_error) \<Rightarrow>
                                 (if rc \<noteq> NC_NOERR then get_exit range_error rc out1
                                  else
                                    get_att_copy e att type_size (Some bufr)
                                      (if strict \<and>
                                          (nc_typeid att = NC_UBYTE \<or> nc_typeid att = NC_BYTE) \<and>
                                          (mem_type = NC_UBYTE \<or> mem_type = NC_BYTE) \<and>
                                          range_error
                                       then False else range_error)
                                      out1 datap)))
                       else get_att_copy e att type_size (data att) False out1 datap))))"

text \<open>
  \<open>nc4_get_att\<close>.  The name may be a null pointer (\<open>None\<close>); \<open>attnum\<close> is the pointer to
  the attribute number with the value it points to, \<open>None\<close> when null.
\<close>

definition nc4_get_att ::
  "env \<Rightarrow> nc_state \<Rightarrow> int \<Rightarrow> int \<Rightarrow> string option \<Rightarrow> bool \<Rightarrow> nc_type \<Rightarrow> bool \<Rightarrow> int option \<Rightarrow> bool
     \<Rightarrow> (ncerr \<times> get_out) outcome" where
  "nc4_get_att e s ncid varid name xtype mem_type lenp attnum datap =
     (let my_attnum = (case attnum of Some a \<Rightarrow> a | None \<Rightarrow> - 1)
      in if nc4_find_nc_grp_h5 e ncid \<noteq> NC_NOERR
         then Returns (nc4_find_nc_grp_h5 e ncid, no_out)
         else
           (case (if varid \<noteq> NC_GLOBAL then
                    (case ncindexith_int (vars (grp s)) varid of
                       None \<Rightarrow> Returns (Some NC_ENOTVAR)
                     | Some var \<Rightarrow> (if int (hdr_id var) = varid then Returns None else Crash))
                  else Returns None) of
              Crash \<Rightarrow> Crash
            | Returns (Some r) \<Rightarrow> Returns (r, no_out)
            | Returns None \<Rightarrow>
                (case name of
                   None \<Rightarrow> get_exit False NC_EBADNAME no_out
                 | Some nm \<Rightarrow>
                     (case nc4_normalize_name e nm of
                        (r, norm_name) \<Rightarrow>
                          (if r \<noteq> NC_NOERR then get_exit False r no_out
                           else if ext_ncid s = ncid \<and> varid = NC_GLOBAL \<and>
                                   NC_findreserved norm_name = Some True
                           then Returns (nc4_get_att_special e (h5 s) norm_name xtype mem_type
                                           lenp (attnum \<noteq> None) datap)
                           else
                             (case nc4_find_grp_att e (grp s) varid norm_name my_attnum of
                                Inl r2 \<Rightarrow> Returns (r2, no_out)
                              | Inr att \<Rightarrow>
                                  get_att_found e s att xtype mem_type lenp (attnum \<noteq> None)
                                    datap))))))"

definition NC4_inq_att ::
  "env \<Rightarrow> nc_state \<Rightarrow> int \<Rightarrow> int \<Rightarrow> string option \<Rightarrow> bool \<Rightarrow> bool \<Rightarrow> (ncerr \<times> get_out) outcome" where
  "NC4_inq_att e s ncid varid name xtypep lenp =
     nc4_get_att e s ncid varid name xtypep NC_NAT lenp None False"

definition NC4_inq_attid ::
  "env \<Rightarrow> nc_state \<Rightarrow> int \<Rightarrow> int \<Rightarrow> string option \<Rightarrow> int option \<Rightarrow> (ncerr \<times> get_out) outcome" where
  "NC4_inq_attid e s ncid varid name attnump =
     nc4_get_att e s ncid varid name False NC_NAT False attnump False"

definition NC4_get_att ::
  "env \<Rightarrow> nc_state \<Rightarrow> int \<Rightarrow> int \<Rightarrow> string option \<Rightarrow> bool \<Rightarrow> nc_type \<Rightarrow> (ncerr \<times> get_out) outcome" where
  "NC4_get_att e s ncid varid name value memtype =
     nc4_get_att e s ncid varid name False memtype False None value"

section \<open>Renaming and deleting attributes\<close>

text \<open>
  Modelled from the spec: \<^verbatim>\<open>ncindexrebuild\<close> is called by the attribute code but is not
  defined among the sources.  Section 4.3: \<open>rebuild()\<close> discards and reconstructs the hash
  table from the current vector contents, which is what \<open>ncindexrehash\<close> of ncindex.c
  does.  In the model it cannot fail, so the \<^verbatim>\<open>NC_EINTERNAL\<close> exits of its callers do
  not arise.
\<close>

definition ncindexrebuild ::
  "bool \<Rightarrow> ('a NC_OBJ_scheme) NCindex \<Rightarrow> ('a NC_OBJ_scheme) NCindex" where
  "ncindexrebuild NCIUSEHASH index = ncindexrehash NCIUSEHASH index"

text \<open>
  Modelled from the spec: \<^verbatim>\<open>nc4_att_list_del\<close> is not among the sources.  Section 3:
  deletion removes the record from the vector, compacting it; this is \<open>ncindexidel\<close> at
  the position of the record.  The renumbering and the rebuild are done by the caller.
\<close>

definition nc4_att_list_del ::
  "bool \<Rightarrow> NC_ATT_INFO_T NCindex \<Rightarrow> nat \<Rightarrow> ncerr \<times> NC_ATT_INFO_T NCindex" where
  "nc4_att_list_del NCIUSEHASH list p = (NC_NOERR, snd (ncindexidel NCIUSEHASH list p))"

text \<open>
  Modelled from the spec: \<^verbatim>\<open>nc4_att_list_add\<close> is not among the sources.  Section 3: a
  record is created with id = current length of the list at append time, and appended;
  the fresh record is zeroed.  The result is the list and the position of the new record.
\<close>

definition nc4_att_list_add ::
  "bool \<Rightarrow> NC_ATT_INFO_T NCindex \<Rightarrow> string \<Rightarrow> ncerr \<times> NC_ATT_INFO_T NCindex \<times> nat" where
  "nc4_att_list_add NCIUSEHASH list nm =
     (let new_att = \<lparr>hdr_name = nm, hdr_id = ncindexsize list, len = 0, dirty = False,
                      created = False, nc_typeid = NC_NAT, data = None, stdata = None,
                      vldata = None\<rparr>
      in (NC_NOERR, ncindexadd NCIUSEHASH list new_att, ncindexsize list))"

text \<open>Writing an attribute list, or one record of it, back into the state.\<close>

definition commit :: "nc_state \<Rightarrow> attloc \<Rightarrow> NC_ATT_INFO_T NCindex \<Rightarrow> nc_state" where
  "commit s loc al = s\<lparr>grp := attlist_update (grp s) loc al\<rparr>"

definition set_att :: "NC_ATT_INFO_T NCindex \<Rightarrow> nat \<Rightarrow> NC_ATT_INFO_T \<Rightarrow> NC_ATT_INFO_T NCindex" where
  "set_att al p att = al\<lparr>nclist := (nclist al)[p := att]\<rparr>"

text \<open>
  \<open>NC4_rename_att\<close>.  The local \<^verbatim>\<open>var\<close> is initialised to \<^verbatim>\<open>NULL\<close> and never assigned, so
  the final marking of the variable is skipped.  When the copy of the new name cannot be
  allocated the record is left with a null name, written here as the empty string.
\<close>

definition rename_backend :: "env \<Rightarrow> NC_GRP_INFO_T \<Rightarrow> int \<Rightarrow> NC_ATT_INFO_T \<Rightarrow> ncerr" where
  "rename_backend e g varid att =
     (if created att then
        (if varid = NC_GLOBAL then
           (if H5Adelete e (hdf_grpid g) (hdr_name att) < 0 then NC_EHDFERR else NC_NOERR)
         else
           (case nc4_open_var_grp2 e varid of
              (r, datasetid) \<Rightarrow>
                (if r \<noteq> NC_NOERR then r
                 else if H5Adelete e datasetid (hdr_name att) < 0 then NC_EHDFERR
                 else NC_NOERR)))
      else NC_NOERR)"

definition rename_att_found ::
  "env \<Rightarrow> nc_state \<Rightarrow> int \<Rightarrow> attloc \<Rightarrow> NC_ATT_INFO_T NCindex \<Rightarrow> string \<Rightarrow> nat
     \<Rightarrow> (ncerr \<times> nc_state) outcome" where
  "rename_att_found e s varid loc list norm_newname p =
     (let att = nclist list ! p
      in if \<not> flags_INDEF (h5 s) \<and> length norm_newname > length (hdr_name att) \<and>
            cmode_CLASSIC_MODEL (h5 s)
         then Returns (NC_ENOTINDEFINE, s)
         else if rename_backend e (grp s) varid att \<noteq> NC_NOERR
         then Returns (rename_backend e (grp s) varid att, s)
         else if \<not> malloc e (length norm_newname + 1)
         then Returns (NC_ENOMEM,
                commit s loc (set_att list p (att\<lparr>hdr_name := [], created := False\<rparr>)))
         else
           Returns (NC_NOERR,
             commit s loc
               (ncindexrebuild (NCIUSEHASH_set e)
                  (set_att list p
                     (att\<lparr>hdr_name := norm_newname, created := False, dirty := True\<rparr>)))))"

definition rename_att_in_list ::
  "env \<Rightarrow> nc_state \<Rightarrow> int \<Rightarrow> attloc \<Rightarrow> string \<Rightarrow> string \<Rightarrow> (ncerr \<times> nc_state) outcome" where
  "rename_att_in_list e s varid loc nm norm_newname =
     (let list = attlist_of (grp s) loc
      in if ncindexlookup (NCIUSEHASH_set e) list norm_newname \<noteq> None
         then Returns (NC_ENAMEINUSE, s)
         else
           (case nc4_normalize_name e nm of
              (r2, norm_name) \<Rightarrow>
                (if r2 \<noteq> NC_NOERR then Returns (r2, s)
                 else
                   (case ncindexlookup (NCIUSEHASH_set e) list norm_name of
                      None \<Rightarrow> Returns (NC_ENOTATT, s)
                    | Some p \<Rightarrow> rename_att_found e s varid loc list norm_newname p))))"

definition NC4_rename_att ::
  "env \<Rightarrow> nc_state \<Rightarrow> int \<Rightarrow> int \<Rightarrow> string option \<Rightarrow> string option \<Rightarrow> (ncerr \<times> nc_state) outcome" where
  "NC4_rename_att e s ncid varid name newname =
     (case name of
        None \<Rightarrow> Returns (NC_EINVAL, s)
      | Some nm \<Rightarrow>
          (case newname of
             None \<Rightarrow> Returns (NC_EINVAL, s)
           | Some newnm \<Rightarrow>
               (if length newnm > NC_MAX_NAME then Returns (NC_EMAXNAME, s)
                else if nc4_find_nc_grp_h5 e ncid \<noteq> NC_NOERR
                then Returns (nc4_find_nc_grp_h5 e ncid, s)
                else if no_write (h5 s) then Returns (NC_EPERM, s)
                else
                  (case nc4_check_name e newnm of
                     (r1, norm_newname) \<Rightarrow>
                       (if r1 \<noteq> NC_NOERR then Returns (r1, s)
                        else
                          (case getattlist (grp s) varid of
                             Crash \<Rightarrow> Crash
                           | Returns None \<Rightarrow> Returns (NC_ENOTVAR, s)
                           | Returns (Some loc) \<Rightarrow>
                               rename_att_in_list e s varid loc nm norm_newname))))))"

text \<open>
  \<open>NC4_del_att\<close>.  The local \<^verbatim>\<open>locid\<close> is initialised to 0 and never assigned, so the
  \<^verbatim>\<open>assert(locid)\<close> in front of the backend removal fails whenever the attribute has been
  created in the file.  The attribute is looked up under the name as given.
\<close>

definition renumber :: "nat \<Rightarrow> NC_ATT_INFO_T \<Rightarrow> NC_ATT_INFO_T" where
  "renumber deletedid a = (if hdr_id a > deletedid then a\<lparr>hdr_id := hdr_id a - 1\<rparr> else a)"

definition del_att_found ::
  "env \<Rightarrow> nc_state \<Rightarrow> attloc \<Rightarrow> NC_ATT_INFO_T NCindex \<Rightarrow> nat \<Rightarrow> (ncerr \<times> nc_state) outcome" where
  "del_att_found e s1 loc attlist p =
     (let att = nclist attlist ! p
      in if created att then Crash
         else
           (let deletedid = hdr_id att
            in case nc4_att_list_del (NCIUSEHASH_set e) attlist p of
                 (r, al1) \<Rightarrow>
                   (if r \<noteq> NC_NOERR then Returns (r, commit s1 loc al1)
                    else
                      Returns (NC_NOERR,
                        commit s1 loc
                          (ncindexrebuild (NCIUSEHASH_set e)
                             (al1\<lparr>nclist := map (renumber deletedid) (nclist al1)\<rparr>))))))"

definition NC4_del_att ::
  "env \<Rightarrow> nc_state \<Rightarrow> int \<Rightarrow> int \<Rightarrow> string option \<Rightarrow> (ncerr \<times> nc_state) outcome" where
  "NC4_del_att e s ncid varid name =
     (case name of
        None \<Rightarrow> Returns (NC_EINVAL, s)
      | Some nm \<Rightarrow>
          (if nc4_find_nc_grp_h5 e ncid \<noteq> NC_NOERR
           then Returns (nc4_find_nc_grp_h5 e ncid, s)
           else if no_write (h5 s) then Returns (NC_EPERM, s)
           else if \<not> flags_INDEF (h5 s) \<and> cmode_CLASSIC_MODEL (h5 s)
           then Returns (NC_ENOTINDEFINE, s)
           else if \<not> flags_INDEF (h5 s) \<and> fst (NC4_redef e (h5 s)) \<noteq> NC_NOERR
           then Returns (fst (NC4_redef e (h5 s)), s\<lparr>h5 := snd (NC4_redef e (h5 s))\<rparr>)
           else
             (let s1 = (if \<not> flags_INDEF (h5 s) then s\<lparr>h5 := snd (NC4_redef e (h5 s))\<rparr> else s)
              in case getattlist (grp s1) varid of
                   Crash \<Rightarrow> Crash
                 | Returns None \<Rightarrow> Returns (NC_ENOTVAR, s1)
                 | Returns (Some loc) \<Rightarrow>
                     (case ncindexlookup (NCIUSEHASH_set e) (attlist_of (grp s1) loc) nm of
                        None \<Rightarrow> Returns (NC_ENOTATT, s1)
                      | Some p \<Rightarrow> del_att_found e s1 loc (attlist_of (grp s1) loc) p))))"

section \<open>Writing attributes\<close>

text \<open>
  Sizes of \<^verbatim>\<open>hvl_t\<close> and of a pointer, on a platform with 64-bit pointers and
  \<^verbatim>\<open>size_t\<close>.
\<close>

definition sizeof_hvl_t :: nat where "sizeof_hvl_t = 16"
definition sizeof_charp :: nat where "sizeof_charp = 8"

text \<open>
  Lines 628 to 670 of \<open>NC4_put_att\<close>: the checks of the arguments.  The result is the
  status, and on success where the attribute list lives and the normalised name.
\<close>

definition put_att_args ::
  "env \<Rightarrow> nc_state \<Rightarrow> int \<Rightarrow> int \<Rightarrow> string option \<Rightarrow> nat \<Rightarrow> cdata option
     \<Rightarrow> (ncerr + attloc \<times> string) outcome" where
  "put_att_args e s ncid varid name length_arg datap =
     (if nc4_find_nc_grp_h5 e ncid \<noteq> NC_NOERR then Returns (Inl (nc4_find_nc_grp_h5 e ncid))
      else
        (case getattlist (grp s) varid of
           Crash \<Rightarrow> Crash
         | Returns None \<Rightarrow> Returns (Inl NC_ENOTVAR)
         | Returns (Some loc) \<Rightarrow>
             (if length_arg > X_INT_MAX then Returns (Inl NC_EINVAL)
              else
                (case name of
                   None \<Rightarrow> Returns (Inl NC_EBADNAME)
                 | Some nm \<Rightarrow>
                     (if length nm > NC_MAX_NAME then Returns (Inl NC_EBADNAME)
                      else if length_arg \<noteq> 0 \<and> datap = None then Returns (Inl NC_EINVAL)
                      else if no_write (h5 s) then Returns (Inl NC_EPERM)
                      else if fst (nc4_check_name e nm) \<noteq> NC_NOERR
                      then Returns (Inl (fst (nc4_check_name e nm)))
                      else if ext_ncid s = ncid \<and> varid = NC_GLOBAL \<and> \<not> has_parent (grp s) \<and>
                              NC_findreserved nm = Some True
                      then Returns (Inl NC_ENAMEINUSE)
                      else Returns (Inr (loc, snd (nc4_check_name e nm))))))))"

text \<open>
  Lines 678 to 702: definition mode.  The byte footprints are compared in \<^verbatim>\<open>size_t\<close>
  arithmetic; \<^verbatim>\<open>nc4typelen\<close> returns an \<^verbatim>\<open>int\<close> that is converted to \<^verbatim>\<open>size_t\<close>.
\<close>

definition footprint :: "env \<Rightarrow> nat \<Rightarrow> nc_type \<Rightarrow> 64 word" where
  "footprint e n t = word_of_nat n * word_of_int (nc4typelen e t)"

definition put_att_defmode ::
  "env \<Rightarrow> NC_HDF5_FILE_INFO_T \<Rightarrow> NC_ATT_INFO_T option \<Rightarrow> nc_type \<Rightarrow> nat
     \<Rightarrow> ncerr \<times> NC_HDF5_FILE_INFO_T" where
  "put_att_defmode e h att file_type length_arg =
     (case att of
        None \<Rightarrow>
          (if \<not> flags_INDEF h
           then (if cmode_CLASSIC_MODEL h then (NC_EINDEFINE, h) else NC4_redef e h)
           else (NC_NOERR, h))
      | Some a \<Rightarrow>
          (if \<not> flags_INDEF h \<and>
              footprint e length_arg file_type > footprint e (len a) (nc_typeid a)
           then (if cmode_CLASSIC_MODEL h then (NC_EINDEFINE, h) else NC4_redef e h)
           else (NC_NOERR, h)))"

text \<open>Lines 704 to 721: the checks of the two types.\<close>

definition put_att_types ::
  "env \<Rightarrow> NC_HDF5_FILE_INFO_T \<Rightarrow> nc_type \<Rightarrow> nc_type \<Rightarrow> ncerr \<times> nat" where
  "put_att_types e h file_type mem_type =
     (if file_type = NC_NAT \<or> mem_type = NC_NAT then (NC_EBADTYPE, 0)
      else if fst (nc4_get_typelen_mem e file_type) \<noteq> NC_NOERR
      then (fst (nc4_get_typelen_mem e file_type), 0)
      else if file_type \<noteq> mem_type \<and>
              (file_type = NC_CHAR \<or> mem_type = NC_CHAR \<or>
               file_type = NC_STRING \<or> mem_type = NC_STRING)
      then (NC_ECHAR, 0)
      else if cmode_CLASSIC_MODEL h \<and> file_type > NC_DOUBLE then (NC_ESTRICTNC3, 0)
      else (NC_NOERR, snd (nc4_get_typelen_mem e file_type)))"

text \<open>
  Lines 757 to 838: the fill-value block.  It reads the variable through the local
  \<^verbatim>\<open>var\<close>; a null \<^verbatim>\<open>var\<close> makes the first read abort.  The result is \<open>Some\<close> status when
  the block returns from the function, else the state with the variable's cached fill
  value and the size of the variable's type.
\<close>

definition fill_copy :: "env \<Rightarrow> nc_type \<Rightarrow> nat \<Rightarrow> nat \<Rightarrow> cdata option \<Rightarrow> (ncerr \<times> cdata option) outcome" where
  "fill_copy e type_cls fsize type_size datap =
     (if type_cls = NC_VLEN then
        (case datap of
           Some (Vlens (in_vlen # rest)) \<Rightarrow>
             (if \<not> malloc e (fsize * vl_len in_vlen)
              then Returns (NC_ENOMEM, Some (Vlens [\<lparr>vl_len = vl_len in_vlen, vl_p = []\<rparr>]))
              else Returns (NC_NOERR,
                     Some (Vlens [\<lparr>vl_len = vl_len in_vlen,
                                   vl_p = take (vl_len in_vlen * fsize) (vl_p in_vlen)\<rparr>])))
         | _ \<Rightarrow> Crash)
      else if type_cls = NC_STRING then
        (case datap of
           Some (Strings (Some str # rest)) \<Rightarrow>
             (if \<not> malloc e (length str + 1) then Returns (NC_ENOMEM, Some (Strings [None]))
              else Returns (NC_NOERR, Some (Strings [Some str])))
         | Some (Strings (None # rest)) \<Rightarrow> Returns (NC_NOERR, Some (Strings [None]))
         | _ \<Rightarrow> Crash)
      else
        (case datap of
           Some (Bytes b) \<Rightarrow> Returns (NC_NOERR, Some (Bytes (take type_size b)))
         | _ \<Rightarrow> Crash))"

definition set_var :: "nc_state \<Rightarrow> nat \<Rightarrow> NC_VAR_INFO_T \<Rightarrow> nc_state" where
  "set_var s v vr =
     s\<lparr>grp := (grp s)\<lparr>vars := (vars (grp s))\<lparr>nclist := (nclist (vars (grp s)))[v := vr]\<rparr>\<rparr>\<rparr>"

definition put_fill_value ::
  "env \<Rightarrow> nc_state \<Rightarrow> nat option \<Rightarrow> NC_ATT_INFO_T \<Rightarrow> cdata option \<Rightarrow> nat
     \<Rightarrow> (ncerr option \<times> nc_state \<times> nat) outcome" where
  "put_fill_value e s var att datap type_size0 =
     (case var of
        None \<Rightarrow> Crash
      | Some v \<Rightarrow>
          (let vr = nclist (vars (grp s)) ! v
           in if nc_typeid att \<noteq> type_info_id vr then Returns (Some NC_EBADTYPE, s, type_size0)
              else if len att \<noteq> 1 then Returns (Some NC_EINVAL, s, type_size0)
              else if written_to vr then Returns (Some NC_ELATEFILL, s, type_size0)
              else if fst (nc4_get_typelen_mem e (type_info_id vr)) \<noteq> NC_NOERR
              then Returns (Some (fst (nc4_get_typelen_mem e (type_info_id vr))), s, type_size0)
              else
                (let type_size = snd (nc4_get_typelen_mem e (type_info_id vr));
                     free_status =
                       (case fill_value vr of
                          Some (Vlens (h # hs)) \<Rightarrow>
                            (if type_info_class vr = NC_VLEN then nc_free_vlen e h else NC_NOERR)
                        | _ \<Rightarrow> NC_NOERR);
                     size = (if type_info_class vr = NC_VLEN then sizeof_hvl_t
                             else if type_info_class vr = NC_STRING then sizeof_charp
                             else type_size)
                 in if free_status \<noteq> NC_NOERR then Returns (Some free_status, s, type_size)
                    else if \<not> malloc e size
                    then Returns (Some NC_ENOMEM, set_var s v (vr\<lparr>fill_value := None\<rparr>), type_size)
                    else
                      (case fill_copy e (type_info_class vr) size type_size datap of
                         Crash \<Rightarrow> Crash
                       | Returns (r, fv) \<Rightarrow>
                           (if r \<noteq> NC_NOERR
                            then Returns (Some r, set_var s v (vr\<lparr>fill_value := fv\<rparr>), type_size)
                            else
                              Returns (None,
                                set_var s v
                                  (vr\<lparr>fill_value := fv,
                                      fill_val_changed :=
                                        (if var_created vr then True else fill_val_changed vr)\<rparr>),
                                type_size))))))"

text \<open>
  Lines 840 to 922: the copy of the payload into the record, by type class.  The result
  is the status, the record and the range flag.
\<close>

definition put_att_payload ::
  "env \<Rightarrow> bool \<Rightarrow> bool \<Rightarrow> NC_ATT_INFO_T \<Rightarrow> nc_type \<Rightarrow> nc_type \<Rightarrow> nat \<Rightarrow> nat \<Rightarrow> cdata option
     \<Rightarrow> (ncerr \<times> NC_ATT_INFO_T \<times> bool) outcome" where
  "put_att_payload e strict new_att att file_type mem_type length_arg type_size datap =
     (if fst (nc4_get_typeclass e file_type) \<noteq> NC_NOERR
      then Returns (fst (nc4_get_typeclass e file_type), att, False)
      else
        (let type_cls = snd (nc4_get_typeclass e file_type)
         in if datap = None then Crash
            else if type_cls = NC_VLEN then
              (if fst (nc4_find_type e file_type) \<noteq> NC_NOERR
               then Returns (fst (nc4_find_type e file_type), att, False)
               else if fst (nc4_get_typelen_mem e (snd (nc4_find_type e file_type))) \<noteq> NC_NOERR
               then Returns (fst (nc4_get_typelen_mem e (snd (nc4_find_type e file_type))), att, False)
               else if \<not> malloc e (len att * sizeof_hvl_t)
               then Returns (NC_ENOMEM, att, False)
               else
                 (case datap of
                    Some (Vlens vldata1) \<Rightarrow>
                      (case copy_vlens (malloc e)
                              (snd (nc4_get_typelen_mem e (snd (nc4_find_type e file_type))))
                              (take (len att) vldata1) of
                         (ok, vs) \<Rightarrow>
                           Returns ((if ok then NC_NOERR else NC_ENOMEM),
                                    att\<lparr>vldata := Some vs\<rparr>, False))
                  | _ \<Rightarrow> Crash))
            else if type_cls = NC_STRING then
              (if \<not> malloc e (sizeof_charp * len att) then Returns (NC_ENOMEM, att, False)
               else
                 (let att1 = (if \<not> new_att \<and> data att \<noteq> None then att\<lparr>data := None\<rparr> else att)
                  in case datap of
                       Some (Strings strs) \<Rightarrow>
                         (case copy_strings (malloc e) (take (len att) strs) of
                            (ok, ss) \<Rightarrow>
                              Returns ((if ok then NC_NOERR else NC_ENOMEM),
                                       att1\<lparr>stdata := Some ss\<rparr>, False))
                     | _ \<Rightarrow> Crash))
            else
              (if \<not> malloc e (len att * type_size)
               then Returns (NC_ENOMEM, att\<lparr>data := None\<rparr>, False)
               else
                 (case datap of
                    Some (Bytes b) \<Rightarrow>
                      (if type_cls = NC_OPAQUE \<or> type_cls = NC_COMPOUND \<or> type_cls = NC_ENUM
                       then Returns (NC_NOERR,
                              att\<lparr>data := Some (take (length_arg * type_size) b)\<rparr>, False)
                       else
                         (case nc4_convert_type e (Some b) mem_type file_type length_arg strict of
                            (rc, dst, range_error) \<Rightarrow>
                              Returns (rc, att\<lparr>data := Some dst\<rparr>, range_error)))
                  | _ \<Rightarrow> Crash))))"

text \<open>
  Lines 723 to 938: the record is appended if new, its type and length are set, the
  fill-value block runs for a variable's \<^verbatim>\<open>_FillValue\<close>, and the payload is copied.
  Nothing is undone on an error exit.  A null name left by a failed copy of the name is
  written as the empty string.
\<close>

definition put_exit :: "ncerr \<Rightarrow> bool \<Rightarrow> ncerr" where
  "put_exit retval range_error =
     (if retval \<noteq> NC_NOERR then retval else if range_error then NC_ERANGE else NC_NOERR)"

definition put_att_tail ::
  "env \<Rightarrow> nc_state \<Rightarrow> nat option \<Rightarrow> attloc \<Rightarrow> NC_ATT_INFO_T NCindex \<Rightarrow> nat \<Rightarrow> bool
     \<Rightarrow> NC_ATT_INFO_T \<Rightarrow> nc_type \<Rightarrow> nc_type \<Rightarrow> nat \<Rightarrow> nat \<Rightarrow> cdata option
     \<Rightarrow> (ncerr \<times> nc_state) outcome" where
  "put_att_tail e s var loc al p new_att att file_type mem_type length_arg type_size datap =
     (if len att \<noteq> 0 then
        (case put_att_payload e (cmode_CLASSIC_MODEL (h5 s)) new_att att file_type mem_type
                length_arg type_size datap of
           Crash \<Rightarrow> Crash
         | Returns (rc, att1, range_error) \<Rightarrow>
             (if rc \<noteq> NC_NOERR then Returns (rc, commit s loc (set_att al p att1))
              else
                (let s1 = commit s loc (set_att al p (att1\<lparr>dirty := True, created := False\<rparr>));
                     s2 = (case var of
                             None \<Rightarrow> s1
                           | Some v \<Rightarrow>
                               set_var s1 v ((nclist (vars (grp s1)) ! v)\<lparr>attr_dirty := True\<rparr>))
                 in Returns (put_exit NC_NOERR range_error, s2))))
      else
        (let s1 = commit s loc (set_att al p (att\<lparr>dirty := True, created := False\<rparr>));
             s2 = (case var of
                     None \<Rightarrow> s1
                   | Some v \<Rightarrow> set_var s1 v ((nclist (vars (grp s1)) ! v)\<lparr>attr_dirty := True\<rparr>))
         in Returns (NC_NOERR, s2)))"

definition put_att_store ::
  "env \<Rightarrow> nc_state \<Rightarrow> nat option \<Rightarrow> int \<Rightarrow> attloc \<Rightarrow> string \<Rightarrow> nat option \<Rightarrow> nc_type \<Rightarrow> nc_type
     \<Rightarrow> nat \<Rightarrow> nat \<Rightarrow> cdata option \<Rightarrow> (ncerr \<times> nc_state) outcome" where
  "put_att_store e s var varid loc norm_name found file_type mem_type length_arg type_size datap =
     (let new_att = (found = None);
          added = (case found of
                     None \<Rightarrow> nc4_att_list_add (NCIUSEHASH_set e) (attlist_of (grp s) loc) norm_name
                   | Some p0 \<Rightarrow> (NC_NOERR, attlist_of (grp s) loc, p0));
          al = fst (snd added);
          p = snd (snd added)
      in if fst added \<noteq> NC_NOERR then Returns (fst added, s)
         else if new_att \<and> \<not> malloc e (length norm_name + 1)
         then Returns (NC_ENOMEM, commit s loc (set_att al p ((nclist al ! p)\<lparr>hdr_name := []\<rparr>)))
         else
           (let att = (nclist al ! p)\<lparr>dirty := True, nc_typeid := file_type, stdata := None,
                                      vldata := None, len := length_arg\<rparr>
            in if hdr_name att = FillValue_name \<and> varid \<noteq> NC_GLOBAL then
                 (case put_fill_value e (commit s loc (set_att al p att)) var att datap type_size of
                    Crash \<Rightarrow> Crash
                  | Returns (Some r, s1, ts) \<Rightarrow> Returns (r, s1)
                  | Returns (None, s1, ts) \<Rightarrow>
                      put_att_tail e s1 var loc (attlist_of (grp s1) loc) p new_att att
                        file_type mem_type length_arg ts datap)
               else
                 put_att_tail e s var loc al p new_att att file_type mem_type length_arg
                   type_size datap))"

text \<open>
  \<open>NC4_put_att\<close>.  The local \<^verbatim>\<open>var\<close> is initialised to \<^verbatim>\<open>NULL\<close> and never assigned.
\<close>

definition NC4_put_att ::
  "env \<Rightarrow> nc_state \<Rightarrow> int \<Rightarrow> int \<Rightarrow> string option \<Rightarrow> nc_type \<Rightarrow> nat \<Rightarrow> cdata option \<Rightarrow> nc_type
     \<Rightarrow> (ncerr \<times> nc_state) outcome" where
  "NC4_put_att e s ncid varid name file_type length_arg datap mem_type =
     (let var = None
      in case put_att_args e s ncid varid name length_arg datap of
           Crash \<Rightarrow> Crash
         | Returns (Inl r) \<Rightarrow> Returns (r, s)
         | Returns (Inr (loc, norm_name)) \<Rightarrow>
             (let attlist = attlist_of (grp s) loc;
                  found = ncindexlookup (NCIUSEHASH_set e) attlist norm_name;
                  mode = put_att_defmode e (h5 s) (map_option (\<lambda>p. nclist attlist ! p) found)
                           file_type length_arg;
                  s1 = s\<lparr>h5 := snd mode\<rparr>
              in if fst mode \<noteq> NC_NOERR then Returns (fst mode, s1)
                 else if fst (put_att_types e (h5 s1) file_type mem_type) \<noteq> NC_NOERR
                 then Returns (fst (put_att_types e (h5 s1) file_type mem_type), s1)
                 else
                   put_att_store e s1 var varid loc norm_name found file_type mem_type length_arg
                     (snd (put_att_types e (h5 s1) file_type mem_type)) datap))"

section \<open>A concrete environment and concrete files\<close>

text \<open>
  The instances below are used to run the functions on explicit inputs.  The environment
  \<open>env0\<close> is built without the name map; it accepts every ncid and every name (names are
  already normalised), knows the sizes and classes of the atomic types and no user-defined
  type, enters definition mode on request, has a backend that never fails, allocates any
  request below 65536 bytes, and converts by copying the source buffer without a range
  error (a null source is refused).
\<close>

definition atomic_size :: "nc_type \<Rightarrow> nat option" where
  "atomic_size t =
     (if t = NC_BYTE \<or> t = NC_CHAR \<or> t = NC_UBYTE then Some 1
      else if t = NC_SHORT \<or> t = NC_USHORT then Some 2
      else if t = NC_INT \<or> t = NC_UINT \<or> t = NC_FLOAT then Some 4
      else if t = NC_DOUBLE \<or> t = NC_INT64 \<or> t = NC_UINT64 \<or> t = NC_STRING then Some 8
      else None)"

definition atomic_class :: "nc_type \<Rightarrow> nc_type option" where
  "atomic_class t =
     (if t = NC_CHAR then Some NC_CHAR
      else if t = NC_STRING then Some NC_STRING
      else if t = NC_FLOAT \<or> t = NC_DOUBLE then Some NC_FLOAT
      else if t = NC_BYTE \<or> t = NC_SHORT \<or> t = NC_INT \<or> t = NC_UBYTE \<or> t = NC_USHORT \<or>
              t = NC_UINT \<or> t = NC_INT64 \<or> t = NC_UINT64 then Some NC_INT
      else None)"

definition env0 :: env where
  "env0 =
     \<lparr>NCIUSEHASH_set = False,
      nc4_find_nc_grp_h5 = (\<lambda>ncid. NC_NOERR),
      nc4_normalize_name = (\<lambda>nm. (NC_NOERR, nm)),
      nc4_check_name = (\<lambda>nm. (NC_NOERR, nm)),
      nc4_get_typelen_mem =
        (\<lambda>t. case atomic_size t of Some n \<Rightarrow> (NC_NOERR, n) | None \<Rightarrow> (NC_EBADTYPE, 0)),
      nc4typelen = (\<lambda>t. case atomic_size t of Some n \<Rightarrow> int n | None \<Rightarrow> - 1),
      nc4_get_typeclass =
        (\<lambda>t. case atomic_class t of Some c \<Rightarrow> (NC_NOERR, c) | None \<Rightarrow> (NC_EBADTYPE, 0)),
      nc4_find_type = (\<lambda>t. (NC_EBADTYPE, 0)),
      nc4_convert_type =
        (\<lambda>src src_type dest_type n strict.
           case src of None \<Rightarrow> (NC_EBADTYPE, [], False) | Some b \<Rightarrow> (NC_NOERR, b, False)),
      NC4_redef =
        (\<lambda>h. if flags_INDEF h then (NC_EINDEFINE, h)
             else if no_write h then (NC_EPERM, h)
             else (NC_NOERR, h\<lparr>flags_INDEF := True\<rparr>)),
      NC4_buildpropinfo = (\<lambda>v. (NC_NOERR, ''version=1'')),
      NC4_isnetcdf4 = (\<lambda>h. 1),
      H5Adelete = (\<lambda>loc nm. 0),
      nc4_open_var_grp2 = (\<lambda>varid. (NC_NOERR, 1)),
      nc_free_vlen = (\<lambda>v. NC_NOERR),
      malloc = (\<lambda>n. n < 65536)\<rparr>"

text \<open>
  An attribute of type \<^verbatim>\<open>NC_INT\<close> with one element, not yet created in the file; an index
  over a list of records, without name map; a root group with global attributes only; a
  file in definition mode.
\<close>

definition int_att :: "string \<Rightarrow> nat \<Rightarrow> NC_ATT_INFO_T" where
  "int_att nm i =
     \<lparr>hdr_name = nm, hdr_id = i, len = 1, dirty = False, created = False,
      nc_typeid = NC_INT, data = Some [1, 0, 0, 0], stdata = None, vldata = None\<rparr>"

definition index_of :: "'a list \<Rightarrow> 'a NCindex" where
  "index_of l = \<lparr>nclist = l, ncmap = []\<rparr>"

definition root_grp :: "NC_ATT_INFO_T list \<Rightarrow> NC_VAR_INFO_T list \<Rightarrow> NC_GRP_INFO_T" where
  "root_grp atts vs =
     \<lparr>grp_att = index_of atts, vars = index_of vs, has_parent = False, hdf_grpid = 1\<rparr>"

definition file0 :: NC_HDF5_FILE_INFO_T where
  "file0 =
     \<lparr>no_write = False, flags_INDEF = True, cmode_CLASSIC_MODEL = False,
      propattr_version = 1, superblockversion = 2\<rparr>"

definition state_of :: "NC_GRP_INFO_T \<Rightarrow> NC_HDF5_FILE_INFO_T \<Rightarrow> nc_state" where
  "state_of g h = \<lparr>ext_ncid = 65536, grp = g, h5 = h\<rparr>"

definition int_var :: "string \<Rightarrow> nat \<Rightarrow> NC_ATT_INFO_T list \<Rightarrow> NC_VAR_INFO_T" where
  "int_var nm i atts =
     \<lparr>hdr_name = nm, hdr_id = i, var_att = index_of atts, type_info_id = NC_INT,
      type_info_class = NC_INT, written_to = False, fill_value = None, var_created = False,
      fill_val_changed = False, attr_dirty = False\<rparr>"

text \<open>
  A variant of \<open>env0\<close> whose conversion returns the first \<open>n\<close> bytes of the source, one
  byte for each of the \<open>n\<close> elements, and reports a range error; and a general attribute
  record with a raw buffer.
\<close>

definition env_erange :: env where
  "env_erange =
     env0\<lparr>nc4_convert_type :=
            (\<lambda>src src_type dest_type n strict.
               case src of
                 None \<Rightarrow> (NC_EBADTYPE, [], False)
               | Some b \<Rightarrow> (NC_NOERR, take n b, True))\<rparr>"

definition raw_att :: "string \<Rightarrow> nat \<Rightarrow> nc_type \<Rightarrow> nat \<Rightarrow> bytes option \<Rightarrow> NC_ATT_INFO_T" where
  "raw_att nm i t n b =
     \<lparr>hdr_name = nm, hdr_id = i, len = n, dirty = False, created = False,
      nc_typeid = t, data = b, stdata = None, vldata = None\<rparr>"

text \<open>
  The same environment with the name map in use, and a root group whose attribute index
  is built the way the library builds it: by \<open>ncindexadd\<close> of each record in turn to a new
  index.
\<close>

definition env_hash :: env where
  "env_hash = env0\<lparr>NCIUSEHASH_set := True\<rparr>"

definition hash_index :: "('a NC_OBJ_scheme) list \<Rightarrow> ('a NC_OBJ_scheme) NCindex" where
  "hash_index l = foldl (ncindexadd True) (ncindexnew True 0) l"

definition hash_root_grp :: "NC_ATT_INFO_T list \<Rightarrow> NC_GRP_INFO_T" where
  "hash_root_grp atts =
     \<lparr>grp_att = hash_index atts, vars = hash_index [], has_parent = False, hdf_grpid = 1\<rparr>"

section \<open>The index after an add\<close>

lemma NC_hashmapadd_get: "map_of (NC_hashmapadd m d k) k = Some d"
  by (induction m d k rule: NC_hashmapadd.induct) auto

lemma NC_hashmapadd_mem: "(k, d) \<in> set (NC_hashmapadd m d k)"
  by (induction m d k rule: NC_hashmapadd.induct) auto

lemma sum_list_verify_pos:
  "(k, d) \<in> set m \<Longrightarrow> length l \<le> d \<Longrightarrow> 0 < sum_list (map (verify_entry l) m)"
proof (induction m)
  case Nil then show ?case by simp
next
  case (Cons a m)
  then show ?case by (auto simp: verify_entry_def nclistget_def)
qed

text \<open>
  C1.  With the name map in use, \<open>ncindexadd\<close> pushes the object first and reads the length
  of the vector afterwards, so the entry stored for the object's name is one more than
  the position at which the object was appended.  For every index and every object: the
  object sits at position \<open>length\<close>, its name is bound to \<open>length + 1\<close>, a lookup of the
  name right after the add finds nothing, and \<open>ncindexverify\<close> rejects the index in its
  first pass, whatever the later passes count.
\<close>

theorem ncindexadd_hash_entry_past_position:
  "nclistget (nclist (ncindexadd True ix ob)) (length (nclist ix)) = Some ob \<and>
   NC_hashmapget (ncmap (ncindexadd True ix ob)) (hdr_name ob) = Some (Suc (length (nclist ix))) \<and>
   ncindexlookup True (ncindexadd True ix ob) (hdr_name ob) = None \<and>
   \<not> ncindexverify True (ncindexadd True ix ob) later_errors"
proof -
  let ?ix' = "ncindexadd True ix ob"
  have l: "nclist ?ix' = nclist ix @ [ob]"
    by (simp add: ncindexadd_def nclistpush_def Let_def)
  have m: "ncmap ?ix' = NC_hashmapadd (ncmap ix) (Suc (length (nclist ix))) (hdr_name ob)"
    by (simp add: ncindexadd_def nclistpush_def nclistlength_def Let_def)
  have g: "NC_hashmapget (ncmap ?ix') (hdr_name ob) = Some (Suc (length (nclist ix)))"
    by (simp add: m NC_hashmapget_def NC_hashmapadd_get)
  have pos: "0 < sum_list (map (verify_entry (nclist ?ix')) (ncmap ?ix'))"
    by (rule sum_list_verify_pos [where k = "hdr_name ob" and d = "Suc (length (nclist ix))"])
       (simp_all add: m l NC_hashmapadd_mem)
  have v: "\<not> ncindexverify True ?ix' later_errors"
    using pos by (simp add: ncindexverify_def Let_def)
  show ?thesis
    using g v by (simp add: l nclistget_def ncindexlookup_def)
qed

section \<open>Unfolding rules and facts about the index\<close>

lemmas nc_consts = NC_NAT_def NC_BYTE_def NC_CHAR_def NC_SHORT_def NC_INT_def NC_FLOAT_def
  NC_DOUBLE_def NC_UBYTE_def NC_USHORT_def NC_UINT_def NC_INT64_def NC_UINT64_def
  NC_STRING_def NC_VLEN_def NC_OPAQUE_def NC_ENUM_def NC_COMPOUND_def NC_GLOBAL_def

lemmas concrete_defs = env0_def int_att_def index_of_def root_grp_def file0_def state_of_def
  int_var_def atomic_size_def atomic_class_def env_erange_def raw_att_def

lemmas put_defs = NC4_put_att_def put_att_args_def put_att_defmode_def put_att_types_def
  put_att_store_def put_att_tail_def put_att_payload_def put_fill_value_def put_exit_def
  nc4_att_list_add_def footprint_def

lemmas index_defs = getattlist_def attlist_of_def attlist_update_def commit_def set_att_def
  ncindexlookup_def ncindexith_def ncindexith_int_def nclistget_def ncindexadd_def
  nclistpush_def nclistlength_def ncindexsize_def

lemmas hash_defs = env_hash_def hash_index_def hash_root_grp_def ncindexnew_def
  DFALTTABLESIZE_def NC_hashmapnew_def NC_hashmapget_def ncindexrehash_def ncindexrebuild_def
  ncindexidel_def nclistremove_def nc4_att_list_del_def renumber_def

lemma ncindexsearch_bound: "ncindexsearch l nm = Some p \<Longrightarrow> p < length l"
  by (induction l arbitrary: p) (auto split: if_splits)

lemma ncindexlookup_bound:
  "ncindexlookup H ix nm = Some p \<Longrightarrow> p < length (nclist ix)"
  by (auto simp: ncindexlookup_def nclistget_def ncindexsearch_bound
           split: if_splits option.splits)

lemma nclist_foldl_ncindexadd:
  "nclist (foldl (ncindexadd H) ix xs) = nclist ix @ xs"
  by (induction xs arbitrary: ix) (simp_all add: ncindexadd_def nclistpush_def Let_def)

lemma nclist_ncindexrehash: "nclist (ncindexrehash H ix) = nclist ix"
  by (simp add: ncindexrehash_def Let_def nclist_foldl_ncindexadd)

lemma nclist_ncindexidel:
  "p < length (nclist ix) \<Longrightarrow>
   nclist (snd (ncindexidel H ix p)) = take p (nclist ix) @ drop (Suc p) (nclist ix)"
  by (simp add: ncindexidel_def nclistremove_def split: prod.splits bool.splits)

lemma getattlist_in_range:
  "getattlist g varid = Returns (Some (VarAtts v)) \<Longrightarrow> v < length (nclist (vars g))"
  by (auto simp: getattlist_def ncindexith_int_def ncindexith_def nclistget_def
           split: if_splits option.splits)

lemma attlist_of_update:
  "getattlist g varid = Returns (Some loc) \<Longrightarrow> attlist_of (attlist_update g loc al) loc = al"
  by (cases loc) (auto simp: attlist_of_def attlist_update_def dest: getattlist_in_range)


section \<open>Deleting an attribute\<close>

text \<open>
  C2.  With the name map in use, \<open>ncindexadd\<close> has stored for each name the position of
  its record plus one, so the lookup of \<open>NC4_del_att\<close> resolves a name to the record after
  it.  On the list \<open>a, b, c, d\<close> with the ids 0 to 3, built by \<open>ncindexadd\<close>, the delete of
  \<open>b\<close> returns \<^verbatim>\<open>NC_NOERR\<close>, removes the record of \<open>c\<close> and leaves \<open>a, b, d\<close> with the ids
  0, 1, 2 under a name map rebuilt from that list: \<open>b\<close> is still there and \<open>c\<close> is gone.
  Without the name map the same call removes the record of \<open>b\<close> and leaves \<open>a, c, d\<close> with
  the ids 0, 1, 2.
\<close>

theorem NC4_del_att_hash_removes_neighbour:
  "ncmap (hash_index [int_att ''a'' 0, int_att ''b'' 1, int_att ''c'' 2, int_att ''d'' 3]) =
     [(''a'', 1), (''b'', 2), (''c'', 3), (''d'', 4)] \<and>
   NC4_del_att env_hash
     (state_of (hash_root_grp [int_att ''a'' 0, int_att ''b'' 1, int_att ''c'' 2, int_att ''d'' 3]) file0)
     65536 NC_GLOBAL (Some ''b'') =
   Returns (NC_NOERR,
     state_of (hash_root_grp [int_att ''a'' 0, int_att ''b'' 1, int_att ''d'' 2]) file0) \<and>
   NC4_del_att env0
     (state_of (root_grp [int_att ''a'' 0, int_att ''b'' 1, int_att ''c'' 2, int_att ''d'' 3] []) file0)
     65536 NC_GLOBAL (Some ''b'') =
   Returns (NC_NOERR,
     state_of (root_grp [int_att ''a'' 0, int_att ''c'' 1, int_att ''d'' 2] []) file0)"
  by (simp add: NC4_del_att_def del_att_found_def hash_defs index_defs concrete_defs nc_consts Let_def)



section \<open>Deleting outside definition mode\<close>

text \<open>
  C4, as stated, fails: in a classic-model file outside definition mode the delete of an
  existing attribute returns \<^verbatim>\<open>NC_ENOTINDEFINE\<close> and leaves the state as it was.
\<close>

theorem NC4_del_att_classic_counterexample:
  "NC4_del_att env0
     (state_of (root_grp [int_att ''a'' 0] [])
        (file0\<lparr>flags_INDEF := False, cmode_CLASSIC_MODEL := True\<rparr>))
     65536 NC_GLOBAL (Some ''a'') =
   Returns (NC_ENOTINDEFINE,
     state_of (root_grp [int_att ''a'' 0] [])
       (file0\<lparr>flags_INDEF := False, cmode_CLASSIC_MODEL := True\<rparr>))"
  by (simp add: NC4_del_att_def concrete_defs)

text \<open>
  C4, amended.  Outside definition mode a delete on a writable file returns
  \<^verbatim>\<open>NC_ENOTINDEFINE\<close> with the state unchanged when the file is classic-model; when it is
  not, the delete calls \<^verbatim>\<open>NC4_redef\<close> first, and if that succeeds it removes an attribute
  that exists and has not been created in the file, the file information being the one
  \<^verbatim>\<open>NC4_redef\<close> returned.
\<close>

theorem NC4_del_att_define_mode:
  "(nc4_find_nc_grp_h5 e ncid = NC_NOERR \<and> \<not> no_write (h5 s) \<and> \<not> flags_INDEF (h5 s) \<and>
    cmode_CLASSIC_MODEL (h5 s) \<longrightarrow>
      NC4_del_att e s ncid varid (Some nm) = Returns (NC_ENOTINDEFINE, s)) \<and>
   (nc4_find_nc_grp_h5 e ncid = NC_NOERR \<and> \<not> no_write (h5 s) \<and> \<not> flags_INDEF (h5 s) \<and>
    \<not> cmode_CLASSIC_MODEL (h5 s) \<and> NC4_redef e (h5 s) = (NC_NOERR, h') \<and>
    getattlist (grp s) varid = Returns (Some loc) \<and>
    ncindexlookup (NCIUSEHASH_set e) (attlist_of (grp s) loc) nm = Some p \<and>
    \<not> created (nclist (attlist_of (grp s) loc) ! p) \<longrightarrow>
      (\<exists>s'. NC4_del_att e s ncid varid (Some nm) = Returns (NC_NOERR, s') \<and>
            h5 s' = h' \<and>
            nclist (attlist_of (grp s') loc) =
              map (renumber (hdr_id (nclist (attlist_of (grp s) loc) ! p)))
                (take p (nclist (attlist_of (grp s) loc)) @
                 drop (Suc p) (nclist (attlist_of (grp s) loc)))))"
proof (intro conjI impI)
  assume "nc4_find_nc_grp_h5 e ncid = NC_NOERR \<and> \<not> no_write (h5 s) \<and> \<not> flags_INDEF (h5 s) \<and>
    cmode_CLASSIC_MODEL (h5 s)"
  then show "NC4_del_att e s ncid varid (Some nm) = Returns (NC_ENOTINDEFINE, s)"
    by (simp add: NC4_del_att_def)
next
  assume a: "nc4_find_nc_grp_h5 e ncid = NC_NOERR \<and> \<not> no_write (h5 s) \<and> \<not> flags_INDEF (h5 s) \<and>
    \<not> cmode_CLASSIC_MODEL (h5 s) \<and> NC4_redef e (h5 s) = (NC_NOERR, h') \<and>
    getattlist (grp s) varid = Returns (Some loc) \<and>
    ncindexlookup (NCIUSEHASH_set e) (attlist_of (grp s) loc) nm = Some p \<and>
    \<not> created (nclist (attlist_of (grp s) loc) ! p)"
  let ?al = "attlist_of (grp s) loc"
  let ?H = "NCIUSEHASH_set e"
  let ?k = "hdr_id (nclist ?al ! p)"
  let ?al1 = "snd (ncindexidel ?H ?al p)"
  let ?al2 = "ncindexrebuild ?H (?al1\<lparr>nclist := map (renumber ?k) (nclist ?al1)\<rparr>)"
  let ?s' = "commit (s\<lparr>h5 := h'\<rparr>) loc ?al2"
  have p: "p < length (nclist ?al)" using a by (auto dest: ncindexlookup_bound)
  have run: "NC4_del_att e s ncid varid (Some nm) = Returns (NC_NOERR, ?s')"
    using a by (simp add: NC4_del_att_def del_att_found_def nc4_att_list_del_def Let_def)
  have gl: "getattlist (grp s) varid = Returns (Some loc)" using a by simp
  have al': "attlist_of (grp ?s') loc = ?al2"
    by (simp add: commit_def attlist_of_update [OF gl])
  have l: "nclist ?al2 = map (renumber ?k) (take p (nclist ?al) @ drop (Suc p) (nclist ?al))"
    using p by (simp add: ncindexrebuild_def nclist_ncindexrehash nclist_ncindexidel)
  have h: "h5 ?s' = h'" by (simp add: commit_def)
  show "\<exists>s'. NC4_del_att e s ncid varid (Some nm) = Returns (NC_NOERR, s') \<and>
            h5 s' = h' \<and>
            nclist (attlist_of (grp s') loc) =
              map (renumber ?k) (take p (nclist ?al) @ drop (Suc p) (nclist ?al))"
    using run h l al' by (intro exI [of _ ?s']) simp
qed

theorem NC4_del_att_define_mode_witness:
  "NC4_del_att env0
     (state_of (root_grp [int_att ''a'' 0, int_att ''b'' 1] [])
        (file0\<lparr>flags_INDEF := False, cmode_CLASSIC_MODEL := True\<rparr>))
     65536 NC_GLOBAL (Some ''a'') =
   Returns (NC_ENOTINDEFINE,
     state_of (root_grp [int_att ''a'' 0, int_att ''b'' 1] [])
       (file0\<lparr>flags_INDEF := False, cmode_CLASSIC_MODEL := True\<rparr>)) \<and>
   (\<exists>s'. NC4_del_att env0
           (state_of (root_grp [int_att ''a'' 0, int_att ''b'' 1] []) (file0\<lparr>flags_INDEF := False\<rparr>))
           65536 NC_GLOBAL (Some ''a'') = Returns (NC_NOERR, s') \<and>
         flags_INDEF (h5 s') \<and>
         nclist (attlist_of (grp s') GlobalAtts) = [int_att ''b'' 0])"
proof -
  let ?g = "root_grp [int_att ''a'' 0, int_att ''b'' 1] []"
  let ?sc = "state_of ?g (file0\<lparr>flags_INDEF := False, cmode_CLASSIC_MODEL := True\<rparr>)"
  let ?sn = "state_of ?g (file0\<lparr>flags_INDEF := False\<rparr>)"
  have c: "nc4_find_nc_grp_h5 env0 65536 = NC_NOERR \<and> \<not> no_write (h5 ?sc) \<and>
      \<not> flags_INDEF (h5 ?sc) \<and> cmode_CLASSIC_MODEL (h5 ?sc)"
    by (simp add: concrete_defs)
  have n: "nc4_find_nc_grp_h5 env0 65536 = NC_NOERR \<and> \<not> no_write (h5 ?sn) \<and>
      \<not> flags_INDEF (h5 ?sn) \<and> \<not> cmode_CLASSIC_MODEL (h5 ?sn) \<and>
      NC4_redef env0 (h5 ?sn) = (NC_NOERR, file0) \<and>
      getattlist (grp ?sn) NC_GLOBAL = Returns (Some GlobalAtts) \<and>
      ncindexlookup (NCIUSEHASH_set env0) (attlist_of (grp ?sn) GlobalAtts) ''a'' = Some 0 \<and>
      \<not> created (nclist (attlist_of (grp ?sn) GlobalAtts) ! 0)"
    by (simp add: concrete_defs getattlist_def attlist_of_def ncindexlookup_def)
  have t1: "NC4_del_att env0 ?sc 65536 NC_GLOBAL (Some ''a'') = Returns (NC_ENOTINDEFINE, ?sc)"
    using NC4_del_att_define_mode [where e = env0 and ncid = 65536 and s = ?sc and varid = NC_GLOBAL
        and nm = "''a''"] c by blast
  have t2: "\<exists>s'. NC4_del_att env0 ?sn 65536 NC_GLOBAL (Some ''a'') = Returns (NC_NOERR, s') \<and>
            h5 s' = file0 \<and>
            nclist (attlist_of (grp s') GlobalAtts) =
              map (renumber (hdr_id (nclist (attlist_of (grp ?sn) GlobalAtts) ! 0)))
                (take 0 (nclist (attlist_of (grp ?sn) GlobalAtts)) @
                 drop (Suc 0) (nclist (attlist_of (grp ?sn) GlobalAtts)))"
    using NC4_del_att_define_mode [where e = env0 and ncid = 65536 and s = ?sn and varid = NC_GLOBAL
        and nm = "''a''" and h' = file0 and loc = GlobalAtts and p = 0] n
    by blast
  have e: "map (renumber (hdr_id (nclist (attlist_of (grp ?sn) GlobalAtts) ! 0)))
                (take 0 (nclist (attlist_of (grp ?sn) GlobalAtts)) @
                 drop (Suc 0) (nclist (attlist_of (grp ?sn) GlobalAtts))) = [int_att ''b'' 0]"
    by (simp add: concrete_defs attlist_of_def renumber_def)
  have f: "flags_INDEF file0" by (simp add: file0_def)
  from t2 obtain s' where
    "NC4_del_att env0 ?sn 65536 NC_GLOBAL (Some ''a'') = Returns (NC_NOERR, s')"
    "h5 s' = file0"
    "nclist (attlist_of (grp s') GlobalAtts) = [int_att ''b'' 0]"
    unfolding e by blast
  then show ?thesis using t1 f by auto
qed


section \<open>Reading an attribute with conversion\<close>

text \<open>
  A get reaches the record of an existing attribute when the ncid resolves, the variable
  (if one is named) exists under its id, the name normalises, the name is not a reserved
  one of the root group, and the attribute list holds the name.
\<close>

lemma nc4_find_grp_att_attnum:
  "nc4_find_grp_att e g varid nm a = nc4_find_grp_att e g varid nm b"
  by (simp add: nc4_find_grp_att_def)

lemma nc4_get_att_found:
  assumes "nc4_find_nc_grp_h5 e ncid = NC_NOERR"
    and "varid = NC_GLOBAL \<or>
         (\<exists>var. ncindexith_int (vars (grp s)) varid = Some var \<and> int (hdr_id var) = varid)"
    and "nc4_normalize_name e nm = (NC_NOERR, norm)"
    and "\<not> (ext_ncid s = ncid \<and> varid = NC_GLOBAL \<and> NC_findreserved norm = Some True)"
    and "nc4_find_grp_att e (grp s) varid norm a = Inr att"
  shows "nc4_get_att e s ncid varid (Some nm) xtype mem_type lenp attnum datap =
         get_att_found e s att xtype mem_type lenp (attnum \<noteq> None) datap"
proof -
  have f: "nc4_find_grp_att e (grp s) varid norm (case attnum of Some a \<Rightarrow> a | None \<Rightarrow> - 1) = Inr att"
    using assms(5) nc4_find_grp_att_attnum by metis
  show ?thesis
    using assms(1-4) f
    by (auto simp: nc4_get_att_def Let_def)
qed

text \<open>
  C3.  A get that asks for the data of a non-empty attribute kept as a raw buffer, in a
  memory type other than the stored type (neither being \<^verbatim>\<open>NC_CHAR\<close>), converts: when the
  size of the memory type is known, the buffer can be allocated and the conversion itself
  returns no error, the caller receives the converted buffer, and the status is
  \<^verbatim>\<open>NC_ERANGE\<close> exactly when the conversion reported an out-of-range element, except in
  a classic-model file with both types among \<^verbatim>\<open>NC_BYTE\<close> and \<^verbatim>\<open>NC_UBYTE\<close>, where the
  status is \<^verbatim>\<open>NC_NOERR\<close>.
\<close>

theorem nc4_get_att_range_warning:
  assumes "nc4_find_nc_grp_h5 e ncid = NC_NOERR"
    and "varid = NC_GLOBAL \<or>
         (\<exists>var. ncindexith_int (vars (grp s)) varid = Some var \<and> int (hdr_id var) = varid)"
    and "nc4_normalize_name e nm = (NC_NOERR, norm)"
    and "\<not> (ext_ncid s = ncid \<and> varid = NC_GLOBAL \<and> NC_findreserved norm = Some True)"
    and "nc4_find_grp_att e (grp s) varid norm a = Inr att"
    and "len att \<noteq> 0" and "stdata att = None" and "vldata att = None"
    and "mem_type \<noteq> NC_NAT" and "mem_type \<noteq> nc_typeid att"
    and "mem_type \<noteq> NC_CHAR" and "nc_typeid att \<noteq> NC_CHAR"
    and "nc4_get_typelen_mem e mem_type = (NC_NOERR, type_size)"
    and "malloc e (len att * type_size)"
    and "nc4_convert_type e (data att) (nc_typeid att) mem_type (len att)
           (cmode_CLASSIC_MODEL (h5 s)) = (NC_NOERR, dst, range_error)"
  shows "nc4_get_att e s ncid varid (Some nm) xtype mem_type lenp attnum True =
         Returns
           ((if range_error \<and>
                \<not> (cmode_CLASSIC_MODEL (h5 s) \<and>
                   (nc_typeid att = NC_UBYTE \<or> nc_typeid att = NC_BYTE) \<and>
                   (mem_type = NC_UBYTE \<or> mem_type = NC_BYTE))
             then NC_ERANGE else NC_NOERR),
            \<lparr>out_xtype = (if xtype then Some (nc_typeid att) else None),
             out_len = (if lenp then Some (len att) else None),
             out_attnum = (if attnum \<noteq> None then Some (hdr_id att) else None),
             out_data = Some (Bytes (take (len att * type_size) dst))\<rparr>)"
proof -
  have "nc4_get_att e s ncid varid (Some nm) xtype mem_type lenp attnum True =
        get_att_found e s att xtype mem_type lenp (attnum \<noteq> None) True"
    using assms(1-5) by (rule nc4_get_att_found)
  also have "\<dots> = Returns
           ((if range_error \<and>
                \<not> (cmode_CLASSIC_MODEL (h5 s) \<and>
                   (nc_typeid att = NC_UBYTE \<or> nc_typeid att = NC_BYTE) \<and>
                   (mem_type = NC_UBYTE \<or> mem_type = NC_BYTE))
             then NC_ERANGE else NC_NOERR),
            \<lparr>out_xtype = (if xtype then Some (nc_typeid att) else None),
             out_len = (if lenp then Some (len att) else None),
             out_attnum = (if attnum \<noteq> None then Some (hdr_id att) else None),
             out_data = Some (Bytes (take (len att * type_size) dst))\<rparr>)"
    using assms(6-15)
    by (simp add: get_att_found_def get_att_copy_def get_exit_def Let_def)
  finally show ?thesis .
qed


text \<open>
  A short holding 300 read as unsigned byte gives \<^verbatim>\<open>NC_ERANGE\<close> with the converted byte;
  a signed byte read as unsigned byte in a classic-model file gives \<^verbatim>\<open>NC_NOERR\<close> although
  the conversion reported a range error.
\<close>

theorem nc4_get_att_range_warning_witness:
  "NC4_get_att env_erange
     (state_of (root_grp [raw_att ''t'' 0 NC_SHORT 1 (Some [44, 1])] []) file0)
     65536 NC_GLOBAL (Some ''t'') True NC_UBYTE =
   Returns (NC_ERANGE,
     \<lparr>out_xtype = None, out_len = None, out_attnum = None, out_data = Some (Bytes [44])\<rparr>) \<and>
   NC4_get_att env_erange
     (state_of (root_grp [raw_att ''t'' 0 NC_BYTE 1 (Some [255])] [])
        (file0\<lparr>cmode_CLASSIC_MODEL := True\<rparr>))
     65536 NC_GLOBAL (Some ''t'') True NC_UBYTE =
   Returns (NC_NOERR,
     \<lparr>out_xtype = None, out_len = None, out_attnum = None, out_data = Some (Bytes [255])\<rparr>)"
proof -
  let ?s1 = "state_of (root_grp [raw_att ''t'' 0 NC_SHORT 1 (Some [44, 1])] []) file0"
  let ?s2 = "state_of (root_grp [raw_att ''t'' 0 NC_BYTE 1 (Some [255])] [])
               (file0\<lparr>cmode_CLASSIC_MODEL := True\<rparr>)"
  have t1: "nc4_get_att env_erange ?s1 65536 NC_GLOBAL (Some ''t'') False NC_UBYTE False None True =
      Returns (NC_ERANGE,
        \<lparr>out_xtype = None, out_len = None, out_attnum = None, out_data = Some (Bytes [44])\<rparr>)"
    using nc4_get_att_range_warning [where e = env_erange and s = ?s1 and ncid = 65536
        and varid = NC_GLOBAL and nm = "''t''" and norm = "''t''" and a = "- 1"
        and att = "raw_att ''t'' 0 NC_SHORT 1 (Some [44, 1])"
        and mem_type = NC_UBYTE and type_size = 1 and dst = "[44]" and range_error = True
        and xtype = False and lenp = False and attnum = None]
    by (simp add: concrete_defs nc_consts nc4_find_grp_att_def ncindexlookup_def ncindexith_def
          nclistget_def NC_findreserved_def NCPROPS_def ISNETCDF4ATT_def SUPERBLOCKATT_def)
  have t2: "nc4_get_att env_erange ?s2 65536 NC_GLOBAL (Some ''t'') False NC_UBYTE False None True =
      Returns (NC_NOERR,
        \<lparr>out_xtype = None, out_len = None, out_attnum = None, out_data = Some (Bytes [255])\<rparr>)"
    using nc4_get_att_range_warning [where e = env_erange and s = ?s2 and ncid = 65536
        and varid = NC_GLOBAL and nm = "''t''" and norm = "''t''" and a = "- 1"
        and att = "raw_att ''t'' 0 NC_BYTE 1 (Some [255])"
        and mem_type = NC_UBYTE and type_size = 1 and dst = "[255]" and range_error = True
        and xtype = False and lenp = False and attnum = None]
    by (simp add: concrete_defs nc_consts nc4_find_grp_att_def ncindexlookup_def ncindexith_def
          nclistget_def NC_findreserved_def NCPROPS_def ISNETCDF4ATT_def SUPERBLOCKATT_def)
  show ?thesis using t1 t2 by (simp add: NC4_get_att_def)
qed


section \<open>The character check of a get\<close>

text \<open>
  C6, as stated, fails: an empty attribute of type \<^verbatim>\<open>NC_CHAR\<close> read as \<^verbatim>\<open>NC_INT\<close>, with a
  data pointer, returns \<^verbatim>\<open>NC_NOERR\<close>.
\<close>

theorem nc4_get_att_char_counterexample:
  "NC4_get_att env0 (state_of (root_grp [raw_att ''t'' 0 NC_CHAR 0 None] []) file0)
     65536 NC_GLOBAL (Some ''t'') True NC_INT =
   Returns (NC_NOERR, no_out)"
  by (simp add: NC4_get_att_def nc4_get_att_def get_att_found_def get_exit_def no_out_def
        concrete_defs nc_consts nc4_find_grp_att_def ncindexlookup_def ncindexith_def
        nclistget_def NC_findreserved_def NCPROPS_def ISNETCDF4ATT_def SUPERBLOCKATT_def)

text \<open>
  C6, amended.  For a get of an existing attribute: when data is asked for, the attribute
  is not empty and exactly one of the stored type and the requested type is \<^verbatim>\<open>NC_CHAR\<close>,
  the get returns \<^verbatim>\<open>NC_ECHAR\<close> and writes nothing; when the attribute is empty the get
  returns \<^verbatim>\<open>NC_NOERR\<close> whatever the two types are.
\<close>

theorem nc4_get_att_char_mismatch:
  assumes "nc4_find_nc_grp_h5 e ncid = NC_NOERR"
    and "varid = NC_GLOBAL \<or>
         (\<exists>var. ncindexith_int (vars (grp s)) varid = Some var \<and> int (hdr_id var) = varid)"
    and "nc4_normalize_name e nm = (NC_NOERR, norm)"
    and "\<not> (ext_ncid s = ncid \<and> varid = NC_GLOBAL \<and> NC_findreserved norm = Some True)"
    and "nc4_find_grp_att e (grp s) varid norm a = Inr att"
  shows "(len att \<noteq> 0 \<and> mem_type \<noteq> NC_NAT \<and> (nc_typeid att = NC_CHAR) \<noteq> (mem_type = NC_CHAR) \<longrightarrow>
            nc4_get_att e s ncid varid (Some nm) xtype mem_type lenp attnum True =
              Returns (NC_ECHAR, no_out)) \<and>
         (len att = 0 \<longrightarrow>
            nc4_get_att e s ncid varid (Some nm) xtype mem_type lenp attnum datap =
              Returns (NC_NOERR,
                \<lparr>out_xtype = (if xtype then Some (nc_typeid att) else None),
                 out_len = (if lenp then Some 0 else None),
                 out_attnum = (if attnum \<noteq> None then Some (hdr_id att) else None),
                 out_data = None\<rparr>))"
proof -
  have f: "\<And>d. nc4_get_att e s ncid varid (Some nm) xtype mem_type lenp attnum d =
        get_att_found e s att xtype mem_type lenp (attnum \<noteq> None) d"
    using assms by (rule nc4_get_att_found)
  show ?thesis
    unfolding f by (auto simp: get_att_found_def get_exit_def Let_def)
qed

theorem nc4_get_att_char_mismatch_witness:
  "NC4_get_att env0 (state_of (root_grp [raw_att ''t'' 0 NC_CHAR 2 (Some [104, 105])] []) file0)
     65536 NC_GLOBAL (Some ''t'') True NC_INT = Returns (NC_ECHAR, no_out) \<and>
   NC4_get_att env0 (state_of (root_grp [raw_att ''t'' 0 NC_CHAR 0 None] []) file0)
     65536 NC_GLOBAL (Some ''t'') True NC_INT =
   Returns (NC_NOERR,
     \<lparr>out_xtype = None, out_len = None, out_attnum = None, out_data = None\<rparr>)"
proof -
  let ?a1 = "raw_att ''t'' 0 NC_CHAR 2 (Some [104, 105])"
  let ?a0 = "raw_att ''t'' 0 NC_CHAR 0 None"
  let ?s1 = "state_of (root_grp [?a1] []) file0"
  let ?s0 = "state_of (root_grp [?a0] []) file0"
  have t1: "nc4_get_att env0 ?s1 65536 NC_GLOBAL (Some ''t'') False NC_INT False None True =
      Returns (NC_ECHAR, no_out)"
    using nc4_get_att_char_mismatch [where e = env0 and s = ?s1 and ncid = 65536
        and varid = NC_GLOBAL and nm = "''t''" and norm = "''t''" and a = "- 1" and att = ?a1
        and mem_type = NC_INT and xtype = False and lenp = False and attnum = None]
    by (simp add: concrete_defs nc_consts nc4_find_grp_att_def ncindexlookup_def ncindexith_def
          nclistget_def NC_findreserved_def NCPROPS_def ISNETCDF4ATT_def SUPERBLOCKATT_def)
  have t0: "nc4_get_att env0 ?s0 65536 NC_GLOBAL (Some ''t'') False NC_INT False None True =
      Returns (NC_NOERR,
        \<lparr>out_xtype = None, out_len = None, out_attnum = None, out_data = None\<rparr>)"
    using nc4_get_att_char_mismatch [where e = env0 and s = ?s0 and ncid = 65536
        and varid = NC_GLOBAL and nm = "''t''" and norm = "''t''" and a = "- 1" and att = ?a0
        and mem_type = NC_INT and xtype = False and lenp = False and attnum = None
        and datap = True]
    by (simp add: concrete_defs nc_consts nc4_find_grp_att_def ncindexlookup_def ncindexith_def
          nclistget_def NC_findreserved_def NCPROPS_def ISNETCDF4ATT_def SUPERBLOCKATT_def)
  show ?thesis using t1 t0 by (simp add: NC4_get_att_def)
qed

section \<open>A get without a data pointer\<close>

text \<open>
  C10.  A get of an existing attribute with a null data pointer writes the stored type,
  the length and the id where asked, runs neither the character check nor a conversion,
  and returns \<^verbatim>\<open>NC_NOERR\<close> for an empty attribute; for a non-empty one it returns the
  status of the size query on the memory type (the stored type for \<^verbatim>\<open>NC_NAT\<close>), which is
  made although no data is copied.
\<close>

theorem nc4_get_att_metadata_only:
  assumes "nc4_find_nc_grp_h5 e ncid = NC_NOERR"
    and "varid = NC_GLOBAL \<or>
         (\<exists>var. ncindexith_int (vars (grp s)) varid = Some var \<and> int (hdr_id var) = varid)"
    and "nc4_normalize_name e nm = (NC_NOERR, norm)"
    and "\<not> (ext_ncid s = ncid \<and> varid = NC_GLOBAL \<and> NC_findreserved norm = Some True)"
    and "nc4_find_grp_att e (grp s) varid norm a = Inr att"
  shows "nc4_get_att e s ncid varid (Some nm) xtype mem_type lenp attnum False =
         Returns
           ((if len att = 0 then NC_NOERR
             else fst (nc4_get_typelen_mem e
                         (if mem_type = NC_NAT then nc_typeid att else mem_type))),
            \<lparr>out_xtype = (if xtype then Some (nc_typeid att) else None),
             out_len = (if lenp then Some (len att) else None),
             out_attnum = (if attnum \<noteq> None then Some (hdr_id att) else None),
             out_data = None\<rparr>)"
proof -
  have "nc4_get_att e s ncid varid (Some nm) xtype mem_type lenp attnum False =
        get_att_found e s att xtype mem_type lenp (attnum \<noteq> None) False"
    using assms by (rule nc4_get_att_found)
  then show ?thesis
    by (auto simp: get_att_found_def get_att_copy_def get_exit_def Let_def split: prod.splits)
qed

text \<open>
  The failing input: a one-element \<^verbatim>\<open>NC_INT\<close> attribute, a null data pointer and a memory
  type the type oracle does not know.  The get returns \<^verbatim>\<open>NC_EBADTYPE\<close>.
\<close>

theorem nc4_get_att_metadata_only_witness:
  "NC4_get_att env0 (state_of (root_grp [int_att ''a'' 0] []) file0)
     65536 NC_GLOBAL (Some ''a'') False 99 =
   Returns (NC_EBADTYPE, no_out)"
proof -
  let ?s = "state_of (root_grp [int_att ''a'' 0] []) file0"
  have "nc4_get_att env0 ?s 65536 NC_GLOBAL (Some ''a'') False 99 False None False =
      Returns (NC_EBADTYPE, no_out)"
    using nc4_get_att_metadata_only [where e = env0 and s = ?s and ncid = 65536
        and varid = NC_GLOBAL and nm = "''a''" and norm = "''a''" and a = "- 1"
        and att = "int_att ''a'' 0" and mem_type = 99 and xtype = False and lenp = False
        and attnum = None]
    by (simp add: concrete_defs nc_consts nc4_find_grp_att_def ncindexlookup_def ncindexith_def
          nclistget_def NC_findreserved_def NCPROPS_def ISNETCDF4ATT_def SUPERBLOCKATT_def
          no_out_def)
  then show ?thesis by (simp add: NC4_get_att_def)
qed


section \<open>The reserved attributes\<close>

lemmas reserved_defs = NC_findreserved_def NCPROPS_def ISNETCDF4ATT_def SUPERBLOCKATT_def

text \<open>
  C7, as stated, fails: on a file that records no provenance (version 0) a get of the
  provenance name returns \<^verbatim>\<open>NC_ENOTATT\<close>.
\<close>

theorem reserved_get_counterexample:
  "NC4_get_att env0 (state_of (root_grp [] []) (file0\<lparr>propattr_version := 0\<rparr>))
     65536 NC_GLOBAL (Some NCPROPS) True NC_NAT =
   Returns (NC_ENOTATT, no_out)"
  by (simp add: NC4_get_att_def nc4_get_att_def nc4_get_att_special_def concrete_defs
        nc_consts reserved_defs)

lemma nc4_get_att_reserved:
  assumes "nc4_find_nc_grp_h5 e ncid = NC_NOERR"
    and "nc4_normalize_name e nm = (NC_NOERR, norm)"
    and "ext_ncid s = ncid"
    and "NC_findreserved norm = Some True"
  shows "nc4_get_att e s ncid NC_GLOBAL (Some nm) xtype mem_type lenp attnum datap =
         Returns (nc4_get_att_special e (h5 s) norm xtype mem_type lenp (attnum \<noteq> None) datap)"
  using assms by (simp add: nc4_get_att_def get_exit_def Let_def)

text \<open>
  C7, amended.  For a reserved name on the root group addressed by the file's own ncid,
  whatever the attribute lists hold: a put under the name that passes the checks of its
  arguments returns \<^verbatim>\<open>NC_ENAMEINUSE\<close> and changes nothing; a get that passes a pointer
  for the attribute number returns \<^verbatim>\<open>NC_EATTMETA\<close>; a get of the provenance name in type
  \<^verbatim>\<open>NC_CHAR\<close> or \<^verbatim>\<open>NC_NAT\<close>, on a file with a provenance version other than 0 whose
  provenance text can be built, returns that text; a get of one of the two flags in
  \<^verbatim>\<open>NC_NAT\<close> or an integer type returns the flag as one value of that type (\<^verbatim>\<open>NC_INT\<close> for
  \<^verbatim>\<open>NC_NAT\<close>).
\<close>

theorem reserved_attributes:
  assumes "nc4_find_nc_grp_h5 e ncid = NC_NOERR"
    and "ext_ncid s = ncid"
    and "NC_findreserved norm = Some True"
  shows
    "(length_arg \<le> X_INT_MAX \<and> length norm \<le> NC_MAX_NAME \<and>
      (length_arg \<noteq> 0 \<longrightarrow> datap \<noteq> None) \<and> \<not> no_write (h5 s) \<and>
      fst (nc4_check_name e norm) = NC_NOERR \<and> \<not> has_parent (grp s) \<longrightarrow>
        NC4_put_att e s ncid NC_GLOBAL (Some norm) file_type length_arg datap mem_type =
          Returns (NC_ENAMEINUSE, s)) \<and>
     (nc4_normalize_name e nm = (NC_NOERR, norm) \<longrightarrow>
        nc4_get_att e s ncid NC_GLOBAL (Some nm) xtype mem_type lenp (Some a) want_data =
          Returns (NC_EATTMETA, no_out)) \<and>
     (nc4_normalize_name e nm = (NC_NOERR, norm) \<and> norm = NCPROPS \<and>
      propattr_version (h5 s) \<noteq> 0 \<and> (mem_type = NC_NAT \<or> mem_type = NC_CHAR) \<and>
      NC4_buildpropinfo e (propattr_version (h5 s)) = (NC_NOERR, propdata) \<longrightarrow>
        nc4_get_att e s ncid NC_GLOBAL (Some nm) xtype mem_type lenp None want_data =
          Returns (NC_NOERR,
            \<lparr>out_xtype = (if xtype then Some NC_CHAR else None),
             out_len = (if lenp then Some (length propdata) else None),
             out_attnum = None,
             out_data = (if want_data then Some (Bytes (text_bytes propdata)) else None)\<rparr>)) \<and>
     (nc4_normalize_name e nm = (NC_NOERR, norm) \<and> norm \<noteq> NCPROPS \<and>
      special_value (if mem_type = NC_NAT then NC_INT else mem_type)
        (if norm = SUPERBLOCKATT then word_of_int (superblockversion (h5 s))
         else word_of_int (NC4_isnetcdf4 e (h5 s))) = Some v \<longrightarrow>
        nc4_get_att e s ncid NC_GLOBAL (Some nm) xtype mem_type lenp None True =
          Returns (NC_NOERR,
            \<lparr>out_xtype = (if xtype then Some NC_INT else None),
             out_len = (if lenp then Some 1 else None),
             out_attnum = None,
             out_data = Some v\<rparr>))"
proof (intro conjI impI)
  assume a: "length_arg \<le> X_INT_MAX \<and> length norm \<le> NC_MAX_NAME \<and>
      (length_arg \<noteq> 0 \<longrightarrow> datap \<noteq> None) \<and> \<not> no_write (h5 s) \<and>
      fst (nc4_check_name e norm) = NC_NOERR \<and> \<not> has_parent (grp s)"
  have "put_att_args e s ncid NC_GLOBAL (Some norm) length_arg datap = Returns (Inl NC_ENAMEINUSE)"
    using a assms by (auto simp: put_att_args_def getattlist_def)
  then show "NC4_put_att e s ncid NC_GLOBAL (Some norm) file_type length_arg datap mem_type =
          Returns (NC_ENAMEINUSE, s)"
    by (simp add: NC4_put_att_def)
next
  assume n: "nc4_normalize_name e nm = (NC_NOERR, norm)"
  show "nc4_get_att e s ncid NC_GLOBAL (Some nm) xtype mem_type lenp (Some a) want_data =
          Returns (NC_EATTMETA, no_out)"
    unfolding nc4_get_att_reserved [OF assms(1) n assms(2,3)]
    by (simp add: nc4_get_att_special_def)
next
  assume b: "nc4_normalize_name e nm = (NC_NOERR, norm) \<and> norm = NCPROPS \<and>
      propattr_version (h5 s) \<noteq> 0 \<and> (mem_type = NC_NAT \<or> mem_type = NC_CHAR) \<and>
      NC4_buildpropinfo e (propattr_version (h5 s)) = (NC_NOERR, propdata)"
  then have n: "nc4_normalize_name e nm = (NC_NOERR, norm)" by simp
  show "nc4_get_att e s ncid NC_GLOBAL (Some nm) xtype mem_type lenp None want_data =
          Returns (NC_NOERR,
            \<lparr>out_xtype = (if xtype then Some NC_CHAR else None),
             out_len = (if lenp then Some (length propdata) else None),
             out_attnum = None,
             out_data = (if want_data then Some (Bytes (text_bytes propdata)) else None)\<rparr>)"
    unfolding nc4_get_att_reserved [OF assms(1) n assms(2,3)]
    using b by (auto simp: nc4_get_att_special_def no_out_def Let_def nc_consts)
next
  assume c: "nc4_normalize_name e nm = (NC_NOERR, norm) \<and> norm \<noteq> NCPROPS \<and>
      special_value (if mem_type = NC_NAT then NC_INT else mem_type)
        (if norm = SUPERBLOCKATT then word_of_int (superblockversion (h5 s))
         else word_of_int (NC4_isnetcdf4 e (h5 s))) = Some v"
  then have n: "nc4_normalize_name e nm = (NC_NOERR, norm)" by simp
  have r: "norm = ISNETCDF4ATT \<or> norm = SUPERBLOCKATT"
    using assms(3) c by (auto simp: NC_findreserved_def split: if_splits)
  show "nc4_get_att e s ncid NC_GLOBAL (Some nm) xtype mem_type lenp None True =
          Returns (NC_NOERR,
            \<lparr>out_xtype = (if xtype then Some NC_INT else None),
             out_len = (if lenp then Some 1 else None),
             out_attnum = None,
             out_data = Some v\<rparr>)"
    unfolding nc4_get_att_reserved [OF assms(1) n assms(2,3)]
    using c r by (auto simp: nc4_get_att_special_def no_out_def Let_def)
qed


theorem reserved_attributes_witness:
  "NC4_put_att env0 (state_of (root_grp [] []) file0) 65536 NC_GLOBAL (Some NCPROPS)
     NC_CHAR 1 (Some (Bytes [120])) NC_CHAR =
   Returns (NC_ENAMEINUSE, state_of (root_grp [] []) file0) \<and>
   NC4_inq_attid env0 (state_of (root_grp [] []) file0) 65536 NC_GLOBAL (Some ISNETCDF4ATT) (Some 0) =
   Returns (NC_EATTMETA, no_out) \<and>
   NC4_get_att env0 (state_of (root_grp [] []) file0) 65536 NC_GLOBAL (Some NCPROPS) True NC_NAT =
   Returns (NC_NOERR,
     \<lparr>out_xtype = None, out_len = None, out_attnum = None,
      out_data = Some (Bytes (text_bytes ''version=1''))\<rparr>) \<and>
   NC4_get_att env0 (state_of (root_grp [] []) file0) 65536 NC_GLOBAL (Some SUPERBLOCKATT) True NC_NAT =
   Returns (NC_NOERR,
     \<lparr>out_xtype = None, out_len = None, out_attnum = None,
      out_data = Some (Scalar NC_INT 2)\<rparr>)"
proof -
  let ?s = "state_of (root_grp [] []) file0"
  have f: "nc4_find_nc_grp_h5 env0 65536 = NC_NOERR" by (simp add: env0_def)
  have x: "ext_ncid ?s = 65536" by (simp add: state_of_def)
  have r1: "NC_findreserved NCPROPS = Some True" by (simp add: NC_findreserved_def)
  have r2: "NC_findreserved ISNETCDF4ATT = Some True" by (simp add: NC_findreserved_def)
  have r3: "NC_findreserved SUPERBLOCKATT = Some True" by (simp add: NC_findreserved_def)
  have sv: "special_value NC_INT (word_of_int 2) = Some (Scalar NC_INT 2)"
    by (simp add: special_value_def nc_consts)
  have p: "NC4_put_att env0 ?s 65536 NC_GLOBAL (Some NCPROPS) NC_CHAR 1 (Some (Bytes [120])) NC_CHAR =
      Returns (NC_ENAMEINUSE, ?s)"
    using reserved_attributes [OF f x r1, where length_arg = 1 and datap = "Some (Bytes [120])"
        and file_type = NC_CHAR and mem_type = NC_CHAR]
    by (simp add: concrete_defs X_INT_MAX_def NC_MAX_NAME_def NCPROPS_def)
  have i: "nc4_get_att env0 ?s 65536 NC_GLOBAL (Some ISNETCDF4ATT) False NC_NAT False (Some 0) False =
      Returns (NC_EATTMETA, no_out)"
    using reserved_attributes [OF f x r2, where nm = ISNETCDF4ATT and a = 0 and xtype = False
        and mem_type = NC_NAT and lenp = False and want_data = False]
    by (simp add: concrete_defs)
  have g1: "nc4_get_att env0 ?s 65536 NC_GLOBAL (Some NCPROPS) False NC_NAT False None True =
      Returns (NC_NOERR,
        \<lparr>out_xtype = None, out_len = None, out_attnum = None,
         out_data = Some (Bytes (text_bytes ''version=1''))\<rparr>)"
    using reserved_attributes [OF f x r1, where nm = NCPROPS and xtype = False
        and mem_type = NC_NAT and lenp = False and want_data = True and propdata = "''version=1''"]
    by (simp add: concrete_defs)
  have g2: "nc4_get_att env0 ?s 65536 NC_GLOBAL (Some SUPERBLOCKATT) False NC_NAT False None True =
      Returns (NC_NOERR,
        \<lparr>out_xtype = None, out_len = None, out_attnum = None,
         out_data = Some (Scalar NC_INT 2)\<rparr>)"
    using reserved_attributes [OF f x r3, where nm = SUPERBLOCKATT and xtype = False
        and mem_type = NC_NAT and lenp = False and v = "Scalar NC_INT 2"] sv
    by (simp add: concrete_defs NCPROPS_def SUPERBLOCKATT_def)
  show ?thesis using p i g1 g2 by (simp add: NC4_get_att_def NC4_inq_attid_def)
qed


section \<open>Renaming an attribute\<close>

text \<open>
  C8.  With the name map in use, \<open>ncindexadd\<close> has stored for each name the position of
  its record plus one, so the lookups of \<open>NC4_rename_att\<close> resolve a name to the record
  after it, and the name of the last record to nothing.  On the list \<open>a, b\<close> built by
  \<open>ncindexadd\<close>, the rename of \<open>a\<close> to \<open>c\<close> returns \<^verbatim>\<open>NC_NOERR\<close>, gives the new name to the
  record of \<open>b\<close> and leaves \<open>a\<close> as it was, and the rebuilt index does not find \<open>c\<close>; the
  rename of \<open>a\<close> to the live name \<open>b\<close> returns \<^verbatim>\<open>NC_NOERR\<close> where \<^verbatim>\<open>NC_ENAMEINUSE\<close> is due.
  Without the name map the first call renames the record of \<open>a\<close>, which keeps its id, and
  the second returns \<^verbatim>\<open>NC_ENAMEINUSE\<close> and changes nothing.
\<close>

theorem NC4_rename_att_hash_renames_neighbour:
  "NC4_rename_att env_hash (state_of (hash_root_grp [int_att ''a'' 0, int_att ''b'' 1]) file0)
     65536 NC_GLOBAL (Some ''a'') (Some ''c'') =
   Returns (NC_NOERR,
     state_of (hash_root_grp [int_att ''a'' 0, (int_att ''c'' 1)\<lparr>dirty := True\<rparr>]) file0) \<and>
   ncindexlookup True (hash_index [int_att ''a'' 0, (int_att ''c'' 1)\<lparr>dirty := True\<rparr>]) ''c'' = None \<and>
   NC4_rename_att env_hash (state_of (hash_root_grp [int_att ''a'' 0, int_att ''b'' 1]) file0)
     65536 NC_GLOBAL (Some ''a'') (Some ''b'') =
   Returns (NC_NOERR,
     state_of (hash_root_grp [int_att ''a'' 0, (int_att ''b'' 1)\<lparr>dirty := True\<rparr>]) file0) \<and>
   NC4_rename_att env0 (state_of (root_grp [int_att ''a'' 0, int_att ''b'' 1] []) file0)
     65536 NC_GLOBAL (Some ''a'') (Some ''c'') =
   Returns (NC_NOERR,
     state_of (root_grp [(int_att ''c'' 0)\<lparr>dirty := True\<rparr>, int_att ''b'' 1] []) file0) \<and>
   NC4_rename_att env0 (state_of (root_grp [int_att ''a'' 0, int_att ''b'' 1] []) file0)
     65536 NC_GLOBAL (Some ''a'') (Some ''b'') =
   Returns (NC_ENAMEINUSE, state_of (root_grp [int_att ''a'' 0, int_att ''b'' 1] []) file0)"
  by (simp add: NC4_rename_att_def rename_att_in_list_def rename_att_found_def
        rename_backend_def hash_defs index_defs concrete_defs nc_consts NC_MAX_NAME_def Let_def)



section \<open>Writing the fill value of a variable\<close>

text \<open>
  C5.  In \<open>NC4_put_att\<close> the local \<^verbatim>\<open>var\<close> stays \<^verbatim>\<open>NULL\<close>, and the fill-value block reads
  \<^verbatim>\<open>var->type_info\<close> first.  A put of \<^verbatim>\<open>_FillValue\<close> on a variable therefore aborts once
  the record has been appended: with one element of the variable's type (where the cached
  fill value should be set), with two elements (where \<^verbatim>\<open>NC_EINVAL\<close> is due), and on a
  variable that has been written to (where \<^verbatim>\<open>NC_ELATEFILL\<close> is due).
\<close>

theorem fill_value_put_crashes:
  "NC4_put_att env0 (state_of (root_grp [] [int_var ''v'' 0 []]) file0) 65536 0
     (Some FillValue_name) NC_INT 1 (Some (Bytes [0, 0, 0, 0])) NC_INT = Crash \<and>
   NC4_put_att env0 (state_of (root_grp [] [int_var ''v'' 0 []]) file0) 65536 0
     (Some FillValue_name) NC_INT 2 (Some (Bytes [0, 0, 0, 0, 0, 0, 0, 0])) NC_INT = Crash \<and>
   NC4_put_att env0 (state_of (root_grp [] [(int_var ''v'' 0 [])\<lparr>written_to := True\<rparr>]) file0)
     65536 0 (Some FillValue_name) NC_INT 1 (Some (Bytes [0, 0, 0, 0])) NC_INT = Crash"
  by (simp add: put_defs index_defs concrete_defs nc_consts FillValue_name_def
        X_INT_MAX_def NC_MAX_NAME_def Let_def)


section \<open>A put that fails\<close>












end
